theory Spec2Isabelle
  imports Main "HOL-Library.Word"
begin

section \<open>Data model of the application import (engine/api/application\_import.go)\<close>

text \<open>
  The handler \<open>importApplicationHandler\<close> works on values of the \<open>sdk\<close> package. Only
  the fields the handler reads or writes are kept. Identifiers are Go \<open>int64\<close>; the handler
  only compares them with zero.
\<close>

type_synonym int64 = "64 word"

record Pipeline =
  Pipeline_ID :: int64
  Pipeline_Name :: string

record Environment =
  Environment_ID :: int64
  Environment_Name :: string

text \<open>A trigger: \<open>t.SrcEnvironment\<close>, \<open>t.DestApplication.Name\<close>, \<open>t.DestEnvironment\<close>.\<close>

record Trigger =
  SrcEnvironment :: Environment
  DestApplication_Name :: string
  DestEnvironment :: Environment

record ApplicationPipeline =
  Pipeline :: Pipeline
  Triggers :: "Trigger list"

record Hook =
  Hook_Pipeline :: Pipeline

record RepositoryPoller =
  Poller_Pipeline :: Pipeline

record UserNotification =
  Notif_Pipeline :: Pipeline
  Notif_Environment :: Environment

record Group =
  Group_ID :: int64
  Group_Name :: string

record GroupPermission =
  Group :: Group
  Permission :: int

text \<open>\<open>RepositoriesManager\<close> is a pointer in the source: \<open>None\<close> is \<open>nil\<close>.\<close>

record Application =
  App_ID :: int64
  App_Name :: string
  ApplicationGroups :: "GroupPermission list"
  Pipelines :: "ApplicationPipeline list"
  Hooks :: "Hook list"
  RepositoryPollers :: "RepositoryPoller list"
  Notifications :: "UserNotification list"
  RepositoriesManager :: "string option"
  RepositoryFullname :: string

record Project =
  Project_ID :: int64
  Project_Key :: string
  Environments :: "Environment list"

subsection \<open>Errors\<close>

text \<open>
  \<open>SdkError\<close> are the values of type \<open>*sdk.Error\<close> (they carry a status); \<open>OtherError\<close> is
  any other Go error a collaborator may return.
\<close>

datatype SdkError =
  ErrWrongRequest
  | ErrApplicationExist
  | ErrPipelineNotFound
  | ErrApplicationNotFound
  | ErrNoEnvironment
  | ErrSdk nat

datatype error = SdkError SdkError | OtherError string

text \<open>
  What the handler reads of the decoded body: \<open>payload.Name\<close> and the result of
  \<open>payload.Application()\<close> (the conversion lives in \<open>exportentities\<close>, outside this file).
\<close>

record Payload =
  Payload_Name :: string
  Payload_Application :: "error + Application"

subsection \<open>Diagnostic messages\<close>

datatype MessageID =
  MsgAppImportPipelineNotFound
  | MsgAppImportAppNotFound
  | MsgAppImportEnvNotFound
  | MsgHookCreated
  | MsgPollerCreated
  | MsgOther nat

text \<open>
  An \<open>sdk.Message\<close>: the message kind it was built from and its arguments. The zero value
  of the struct (what a receive on a closed channel yields) has no kind and no arguments.
\<close>

datatype Message = Message (Message_ID: "MessageID option") (Message_Args: "string list")

definition NewMessage :: "MessageID \<Rightarrow> string list \<Rightarrow> Message" where
  "NewMessage m args = Message (Some m) args"

definition zeroMessage :: Message where
  "zeroMessage = Message None []"

section \<open>The message aggregator\<close>

text \<open>
  Lines 94--107. The producer sends on \<open>msgChan\<close> and finally closes it; the only consumer
  is the goroutine below. The channel is first-in first-out, so what the consumer sees is the
  list of messages sent, in order, and then the closed channel. \<open>recv\<close> is one receive
  \<open>msg, ok := <-msgChan\<close> on a channel that is closed after its contents: a pending
  message comes with \<open>ok = true\<close>, the drained closed channel gives the zero value and
  \<open>ok = false\<close>.
\<close>

definition recv :: "Message list \<Rightarrow> (Message \<times> bool) \<times> Message list" where
  "recv ch = (case ch of [] \<Rightarrow> ((zeroMessage, False), []) | m # rest \<Rightarrow> ((m, True), rest))"

text \<open>
  The goroutine of lines 98--107:
  \<^verbatim>\<open>for { msg, ok := <-msgChan; allMsg = append(allMsg, msg); if !ok { done <- true; return } }\<close>
\<close>

function consumer :: "Message list \<Rightarrow> Message list \<Rightarrow> Message list" where
  "consumer allMsg ch =
     (let r = recv ch; msg = fst (fst r); ok = snd (fst r); allMsg' = allMsg @ [msg]
      in if \<not> ok then allMsg' else consumer allMsg' (snd r))"
  by pat_completeness auto
termination
  by (relation "measure (\<lambda>(allMsg, ch). length ch)")
     (auto simp: recv_def split: list.splits)

declare consumer.simps [simp del]

text \<open>
  Lines 279--283, the inner loop: it scans the whole output list, without a break.
\<close>

fun msgFound :: "string list \<Rightarrow> string \<Rightarrow> bool \<Rightarrow> bool" where
  "msgFound [] s found = found"
| "msgFound (os # rest) s found = msgFound rest s (if os = s then True else found)"

text \<open>
  Lines 275--288, the outer loop over \<open>allMsg\<close>; \<open>str\<close> is \<open>m.String(al)\<close>.
\<close>

fun renderLoop :: "(Message \<Rightarrow> string) \<Rightarrow> Message list \<Rightarrow> string list \<Rightarrow> string list" where
  "renderLoop str [] msgListString = msgListString"
| "renderLoop str (m # ms) msgListString =
     (let s = str m in
      if s \<noteq> [] then
        (if \<not> msgFound msgListString s False
         then renderLoop str ms (msgListString @ [s])
         else renderLoop str ms msgListString)
      else renderLoop str ms msgListString)"

text \<open>
  First-occurrence deduplication as the specification words it: keep a text the first time
  it is seen, suppress it afterwards.
\<close>

fun firstOccurrences :: "string list \<Rightarrow> string list" where
  "firstOccurrences [] = []"
| "firstOccurrences (x # xs) = x # firstOccurrences (filter (\<lambda>y. y \<noteq> x) xs)"

section \<open>The store and the collaborators\<close>

text \<open>
  The store holds rows. \<open>db\<close> reads and writes the committed rows directly; the
  transaction \<open>tx\<close> opened at line 109 reads the committed rows and its own pending
  writes, and its pending writes reach the committed rows only at \<open>tx.Commit()\<close>;
  \<open>tx.Rollback()\<close> discards them.
\<close>

datatype Row =
  ApplicationRow string
  | PipelineRow string int64
  | EnvironmentRow string int64
  | HookRow string string
  | PollerRow string string
  | NotificationRow int64 int64 int64
  | ProjectModifiedRow string

datatype TxEvent = TxBegin | TxCommit | TxRollback

text \<open>
  The state the handler threads: the messages sent on \<open>msgChan\<close> so far, the variable
  \<open>globalError\<close>, the committed rows (what \<open>db\<close> sees), the pending writes of \<open>tx\<close>, and
  the calls made on transactions.
\<close>

record State =
  sent :: "Message list"
  globalError :: "error option"
  rows :: "Row list"
  pending :: "Row list"
  txlog :: "TxEvent list"

definition txView :: "State \<Rightarrow> Row list" where
  "txView s = rows s @ pending s"

definition send :: "Message \<Rightarrow> State \<Rightarrow> State" where
  "send m s = s\<lparr>sent := sent s @ [m]\<rparr>"

text \<open>
  What the handler hands back: \<open>WriteJSON(w, r, msgListString, status)\<close>, or
  \<open>sdk.WrapError(err, format, ...)\<close> with the error it wraps (\<open>None\<close> is a \<open>nil\<close> error) and
  its format string, or a bare error. (An error of \<open>WriteJSON\<close> itself, while writing the
  response, is left out.)
\<close>

datatype Outcome =
  WriteJSON "string list" nat
  | WrapError "error option" string
  | ReturnError error

text \<open>
  The packages the handler calls are not part of this file; each call is a parameter. A
  reading call gets the rows its handle sees; a writing call returns its error and the rows
  it wrote, which the handler's model adds to the handle the source passes (\<open>db\<close> or
  \<open>tx\<close>). \<open>Import\<close> also returns the application it was given by pointer (it fills in
  identifiers) and the messages it sent on \<open>msgChan\<close>. An argument that is a field of
  another argument (\<open>app.RepositoriesManager\<close>, \<open>app.RepositoryFullname\<close>) and the user
  \<open>c.User\<close> are not passed again. \<open>DefaultEnv\<close> is \<open>sdk.DefaultEnv\<close>, \<open>String\<close> is
  \<open>Message.String\<close> and \<open>Status\<close> the status field of an \<open>*sdk.Error\<close>.
\<close>

record Collab =
  Exists :: "Row list \<Rightarrow> int64 \<Rightarrow> string \<Rightarrow> error + bool"
  LoadGroup :: "Row list \<Rightarrow> string \<Rightarrow> error + Group"
  Begin :: "Row list \<Rightarrow> error option"
  ExistPipeline :: "Row list \<Rightarrow> int64 \<Rightarrow> string \<Rightarrow> error + bool"
  EnvExists :: "Row list \<Rightarrow> string \<Rightarrow> string \<Rightarrow> error + bool"
  Import :: "Row list \<Rightarrow> Project \<Rightarrow> Application
               \<Rightarrow> error option \<times> Application \<times> Row list \<times> Message list"
  CreateHook :: "Row list \<Rightarrow> string \<Rightarrow> Application \<Rightarrow> Pipeline \<Rightarrow> error option \<times> Row list"
  PollerInsert :: "Row list \<Rightarrow> Application \<Rightarrow> Pipeline \<Rightarrow> error option \<times> Row list"
  InsertOrUpdateUserNotificationSettings ::
    "Row list \<Rightarrow> int64 \<Rightarrow> int64 \<Rightarrow> int64 \<Rightarrow> UserNotification \<Rightarrow> error option \<times> Row list"
  UpdateLastModified :: "Row list \<Rightarrow> Project \<Rightarrow> error option \<times> Row list"
  Commit :: "Row list \<Rightarrow> error option"
  LoadAll :: "Row list \<Rightarrow> string \<Rightarrow> error option"
  CheckApplication :: "Row list \<Rightarrow> Project \<Rightarrow> Application \<Rightarrow> error option \<times> Row list"
  DefaultEnv :: Environment
  String :: "Message \<Rightarrow> string \<Rightarrow> string"
  Status :: "SdkError \<Rightarrow> nat"

text \<open>
  A step of the handler: \<open>Some out\<close> when the handler returned \<open>out\<close> there, \<open>None\<close> when it
  goes on; with the state reached.
\<close>

type_synonym Step = "Outcome option \<times> State"

section \<open>The handler\<close>

text \<open>Lines 85--92: every permission group of the application is loaded through \<open>db\<close>.\<close>

fun loadGroups :: "Collab \<Rightarrow> Row list \<Rightarrow> GroupPermission list \<Rightarrow> error + GroupPermission list" where
  "loadGroups c v [] = Inr []"
| "loadGroups c v (eg # egs) =
     (case LoadGroup c v (Group_Name (Group eg)) of
        Inl errg \<Rightarrow> Inl errg
      | Inr g \<Rightarrow>
          (case loadGroups c v egs of
             Inl errg \<Rightarrow> Inl errg
           | Inr egs' \<Rightarrow> Inr (eg\<lparr>Group := g\<rparr> # egs')))"

subsection \<open>Validation (lines 122--168)\<close>

text \<open>
  Lines 135--144. \<open>errBegin\<close> is \<open>nil\<close> at this point, so the wrapped error is \<open>None\<close>.
\<close>

definition checkDestApplication :: "Collab \<Rightarrow> Project \<Rightarrow> Application \<Rightarrow> Trigger \<Rightarrow> State \<Rightarrow> Step" where
  "checkDestApplication c proj app t s =
     (if DestApplication_Name t \<noteq> App_Name app then
        (case Exists c (txView s) (Project_ID proj) (DestApplication_Name t) of
           Inl err \<Rightarrow> (Some (WrapError None ''importApplicationHandler> Unable to check application %s''), s)
         | Inr ok \<Rightarrow>
             if \<not> ok
             then (None, (send (NewMessage MsgAppImportAppNotFound [DestApplication_Name t]) s)
                           \<lparr>globalError := Some (SdkError ErrApplicationNotFound)\<rparr>)
             else (None, s))
      else (None, s))"

text \<open>Lines 146--155 for the source environment and 157--166 for the destination one.\<close>

definition checkEnvironment :: "Collab \<Rightarrow> Project \<Rightarrow> Environment \<Rightarrow> State \<Rightarrow> Step" where
  "checkEnvironment c proj e s =
     (if Environment_Name e \<noteq> Environment_Name (DefaultEnv c) then
        (case EnvExists c (txView s) (Project_Key proj) (Environment_Name e) of
           Inl err \<Rightarrow> (Some (WrapError None ''importApplicationHandler> Unable to check env %s''), s)
         | Inr ok \<Rightarrow>
             if \<not> ok
             then (None, (send (NewMessage MsgAppImportEnvNotFound [Environment_Name e]) s)
                           \<lparr>globalError := Some (SdkError ErrNoEnvironment)\<rparr>)
             else (None, s))
      else (None, s))"

text \<open>Lines 134--167: the loop over the triggers of one pipeline usage.\<close>

fun checkTriggers :: "Collab \<Rightarrow> Project \<Rightarrow> Application \<Rightarrow> Trigger list \<Rightarrow> State \<Rightarrow> Step" where
  "checkTriggers c proj app [] s = (None, s)"
| "checkTriggers c proj app (t # ts) s =
     (case checkDestApplication c proj app t s of
        (Some out, s1) \<Rightarrow> (Some out, s1)
      | (None, s1) \<Rightarrow>
          (case checkEnvironment c proj (SrcEnvironment t) s1 of
             (Some out, s2) \<Rightarrow> (Some out, s2)
           | (None, s2) \<Rightarrow>
               (case checkEnvironment c proj (DestEnvironment t) s2 of
                  (Some out, s3) \<Rightarrow> (Some out, s3)
                | (None, s3) \<Rightarrow> checkTriggers c proj app ts s3)))"

text \<open>Lines 123--168: the loop over the pipeline usages.\<close>

fun checkPipelines :: "Collab \<Rightarrow> Project \<Rightarrow> Application \<Rightarrow> ApplicationPipeline list \<Rightarrow> State \<Rightarrow> Step" where
  "checkPipelines c proj app [] s = (None, s)"
| "checkPipelines c proj app (p # ps) s =
     (case ExistPipeline c (txView s) (Project_ID proj) (Pipeline_Name (Pipeline p)) of
        Inl err \<Rightarrow> (Some (WrapError None ''importApplicationHandler> Unable to check pipeline %s''), s)
      | Inr ok \<Rightarrow>
          (let s1 = (if \<not> ok
                     then (send (NewMessage MsgAppImportPipelineNotFound [Pipeline_Name (Pipeline p)]) s)
                            \<lparr>globalError := Some (SdkError ErrPipelineNotFound)\<rparr>
                     else s)
           in case checkTriggers c proj app (Triggers p) s1 of
                (Some out, s2) \<Rightarrow> (Some out, s2)
              | (None, s2) \<Rightarrow> checkPipelines c proj app ps s2))"

subsection \<open>Apply (lines 170--268)\<close>

text \<open>
  Lines 180--185 and 201--206: the hook's (poller's) pipeline is replaced by the first
  pipeline of the descriptor's usages that has its name; with no such usage it stays as it is.
\<close>

fun resolvePipeline :: "ApplicationPipeline list \<Rightarrow> Pipeline \<Rightarrow> Pipeline" where
  "resolvePipeline [] hp = hp"
| "resolvePipeline (p # ps) hp =
     (if Pipeline_Name (Pipeline p) = Pipeline_Name hp then Pipeline p else resolvePipeline ps hp)"

text \<open>Lines 179--197. \<open>hook.CreateHook\<close> is called on \<open>db\<close>: its rows are committed at once.\<close>

fun manageHooks :: "Collab \<Rightarrow> Project \<Rightarrow> Application \<Rightarrow> Hook list \<Rightarrow> State \<Rightarrow> Step" where
  "manageHooks c proj app [] s = (None, s)"
| "manageHooks c proj app (h # hs) s =
     (let hp = resolvePipeline (Pipelines app) (Hook_Pipeline h) in
      if Pipeline_ID hp = 0 then
        (Some (WrapError (Some (SdkError ErrPipelineNotFound))
                 ''importApplicationHandler> Pipeline not found for hook %s''),
         send (NewMessage MsgAppImportPipelineNotFound [Pipeline_Name hp]) s)
      else
        (case CreateHook c (rows s) (Project_Key proj) app hp of
           (Some err, w) \<Rightarrow>
             (Some (WrapError (Some err)
                      ''importApplicationHandler> Unable to insert hook on application %s/%s on pipeline %s''),
              s\<lparr>rows := rows s @ w\<rparr>)
         | (None, w) \<Rightarrow>
             manageHooks c proj app hs
               (send (NewMessage MsgHookCreated [RepositoryFullname app, Pipeline_Name hp])
                  (s\<lparr>rows := rows s @ w\<rparr>))))"

text \<open>Lines 200--224. \<open>poller.Insert\<close> is called on \<open>db\<close> as well.\<close>

fun managePollers :: "Collab \<Rightarrow> Project \<Rightarrow> Application \<Rightarrow> RepositoryPoller list \<Rightarrow> State \<Rightarrow> Step" where
  "managePollers c proj app [] s = (None, s)"
| "managePollers c proj app (h # hs) s =
     (let hp = resolvePipeline (Pipelines app) (Poller_Pipeline h) in
      if Pipeline_ID hp = 0 then
        (Some (WrapError (Some (SdkError ErrPipelineNotFound))
                 ''importApplicationHandler> Pipeline %s not found''),
         send (NewMessage MsgAppImportPipelineNotFound [Pipeline_Name hp]) s)
      else
        (case PollerInsert c (rows s) app hp of
           (Some err, w) \<Rightarrow>
             (Some (WrapError (Some err)
                      ''importApplicationHandler> Unable to insert poller on application %s/%s on pipeline %s''),
              s\<lparr>rows := rows s @ w\<rparr>)
         | (None, w) \<Rightarrow>
             managePollers c proj app hs
               (send (NewMessage MsgPollerCreated [RepositoryFullname app, Pipeline_Name hp])
                  (s\<lparr>rows := rows s @ w\<rparr>))))"

text \<open>Lines 230--236: \<open>pipID\<close> starts at zero and takes the first usage of that name.\<close>

fun findPipelineID :: "ApplicationPipeline list \<Rightarrow> string \<Rightarrow> int64" where
  "findPipelineID [] n = 0"
| "findPipelineID (p # ps) n =
     (if Pipeline_Name (Pipeline p) = n then Pipeline_ID (Pipeline p) else findPipelineID ps n)"

text \<open>Lines 242--247: \<open>envID\<close> starts at zero and takes the first environment of that name.\<close>

fun findEnvironmentID :: "Environment list \<Rightarrow> string \<Rightarrow> int64" where
  "findEnvironmentID [] n = 0"
| "findEnvironmentID (e # es) n =
     (if Environment_Name e = n then Environment_ID e else findEnvironmentID es n)"

text \<open>
  Lines 228--261. The notification is written through \<open>tx\<close>. (The \<open>fmt.Printf\<close> of line 229
  writes to the standard output and is left out.)
\<close>

fun manageNotifications :: "Collab \<Rightarrow> Project \<Rightarrow> Application \<Rightarrow> UserNotification list \<Rightarrow> State \<Rightarrow> Step" where
  "manageNotifications c proj app [] s = (None, s)"
| "manageNotifications c proj app (notif # ns) s =
     (let pipID = findPipelineID (Pipelines app) (Pipeline_Name (Notif_Pipeline notif));
          isDefault = (Environment_Name (Notif_Environment notif) = []
                       \<or> Environment_Name (Notif_Environment notif) = Environment_Name (DefaultEnv c));
          notif' = (if isDefault then notif\<lparr>Notif_Environment := DefaultEnv c\<rparr> else notif);
          envID = (if isDefault then Environment_ID (DefaultEnv c)
                   else findEnvironmentID (Environments proj) (Environment_Name (Notif_Environment notif)))
      in
      if pipID = 0 then
        (Some (WrapError (Some (SdkError ErrPipelineNotFound))
                 ''importApplicationHandler> Pipeline %s not found for notification %+v''), s)
      else if envID = 0 then
        (Some (WrapError (Some (SdkError ErrNoEnvironment))
                 ''importApplicationHandler> Environment %s not found for notification %+v''), s)
      else
        (case InsertOrUpdateUserNotificationSettings c (txView s) (App_ID app) pipID envID notif' of
           (Some err, w) \<Rightarrow>
             (Some (WrapError (Some err)
                      ''importApplicationHandler> Unable to insert notification on application %s/%s on pipeline %s''),
              s\<lparr>pending := pending s @ w\<rparr>)
         | (None, w) \<Rightarrow> manageNotifications c proj app ns (s\<lparr>pending := pending s @ w\<rparr>)))"

text \<open>
  Lines 171--175. For an application that exists the update call is commented out and
  nothing happens; otherwise \<open>application.Import\<close> runs on \<open>tx\<close> and sets \<open>globalError\<close>.
\<close>

definition importCore :: "Collab \<Rightarrow> Project \<Rightarrow> Application \<Rightarrow> bool \<Rightarrow> State \<Rightarrow> State \<times> Application" where
  "importCore c proj app exist s =
     (if exist then (s, app)
      else
        (case Import c (txView s) proj app of
           (e, app', w, ms) \<Rightarrow>
             (s\<lparr>sent := sent s @ ms, globalError := e, pending := pending s @ w\<rparr>, app')))"

text \<open>Lines 177--225: hooks and pollers, only with a repositories manager.\<close>

definition manageRepository :: "Collab \<Rightarrow> Project \<Rightarrow> Application \<Rightarrow> State \<Rightarrow> Step" where
  "manageRepository c proj app s =
     (if globalError s = None \<and> RepositoriesManager app \<noteq> None then
        (case manageHooks c proj app (Hooks app) s of
           (Some out, s1) \<Rightarrow> (Some out, s1)
         | (None, s1) \<Rightarrow> managePollers c proj app (RepositoryPollers app) s1)
      else (None, s))"

text \<open>Lines 170--268.\<close>

definition applyPhase :: "Collab \<Rightarrow> Project \<Rightarrow> Application \<Rightarrow> bool \<Rightarrow> State \<Rightarrow> Step \<times> Application" where
  "applyPhase c proj app exist s =
     (if globalError s = None then
        (case importCore c proj app exist s of
           (s1, app1) \<Rightarrow>
             (case manageRepository c proj app1 s1 of
                (Some out, s2) \<Rightarrow> ((Some out, s2), app1)
              | (None, s2) \<Rightarrow>
                  (if globalError s2 = None
                   then (manageNotifications c proj app1 (Notifications app1) s2, app1)
                   else ((None, s2), app1))))
      else ((None, s), app))"

subsection \<open>Rendering and the end of the handler (lines 269--318)\<close>

definition msgListString :: "Collab \<Rightarrow> string \<Rightarrow> Message list \<Rightarrow> string list" where
  "msgListString c al allMsg = renderLoop (\<lambda>m. String c m al) allMsg []"

text \<open>
  Lines 269--318. The channel is closed and the consumer has drained it when \<open>allMsg\<close> is
  read. The applications reloaded at line 309 are only handed to the sanity check.
\<close>

definition finish :: "Collab \<Rightarrow> Project \<Rightarrow> Application \<Rightarrow> string \<Rightarrow> State \<Rightarrow> Outcome \<times> State" where
  "finish c proj app al s =
     (let allMsg = consumer [] (sent s);
          msgs = msgListString c al allMsg
      in case globalError s of
           Some (SdkError myError) \<Rightarrow> (WriteJSON msgs (Status c myError), s)
         | Some (OtherError e) \<Rightarrow>
             (WrapError (Some (OtherError e)) ''importApplicationHandler> Unable import pipeline'', s)
         | None \<Rightarrow>
             (case UpdateLastModified c (txView s) proj of
                (Some err, w) \<Rightarrow>
                  (WrapError (Some err) ''importApplicationHandler> Unable to update project'',
                   s\<lparr>pending := pending s @ w\<rparr>)
              | (None, w) \<Rightarrow>
                  (let s1 = s\<lparr>pending := pending s @ w\<rparr> in
                   case Commit c (pending s1) of
                     Some err \<Rightarrow>
                       (WrapError (Some err) ''importPipelineHandler> Cannot commit transaction'', s1)
                   | None \<Rightarrow>
                       (let s2 = s1\<lparr>rows := rows s1 @ pending s1, pending := [],
                                      txlog := txlog s1 @ [TxCommit]\<rparr> in
                        case LoadAll c (rows s2) (Project_Key proj) of
                          Some errapp \<Rightarrow>
                            (WrapError (Some errapp)
                               ''importPipelineHandler> Unable to reload applications for project %s'', s2)
                        | None \<Rightarrow>
                            (case CheckApplication c (rows s2) proj app of
                               (Some err, w2) \<Rightarrow>
                                 (WrapError (Some err) ''importPipelineHandler> Cannot check warnings'',
                                  s2\<lparr>rows := rows s2 @ w2\<rparr>)
                             | (None, w2) \<Rightarrow> (WriteJSON msgs 200, s2\<lparr>rows := rows s2 @ w2\<rparr>))))))"

text \<open>
  Lines 116--318, what runs between \<open>defer tx.Rollback()\<close> and the return.
\<close>

definition body :: "Collab \<Rightarrow> Project \<Rightarrow> Application \<Rightarrow> bool \<Rightarrow> bool \<Rightarrow> string \<Rightarrow> State \<Rightarrow> Outcome \<times> State" where
  "body c proj app exist forceUpdate al s =
     (if exist \<and> \<not> forceUpdate then (ReturnError (SdkError ErrApplicationExist), s)
      else
        (case checkPipelines c proj app (Pipelines app) s of
           (Some out, s1) \<Rightarrow> (out, s1)
         | (None, s1) \<Rightarrow>
             (case applyPhase c proj app exist s1 of
                ((Some out, s2), app2) \<Rightarrow> (out, s2)
              | ((None, s2), app2) \<Rightarrow> finish c proj app2 al s2)))"

text \<open>
  The deferred \<open>tx.Rollback()\<close> of line 114 runs at every return after line 114: the pending
  writes are dropped (after a commit there are none left).
\<close>

definition Rollback :: "State \<Rightarrow> State" where
  "Rollback s = s\<lparr>pending := [], txlog := txlog s @ [TxRollback]\<rparr>"

text \<open>
  \<open>importApplicationHandler\<close> from line 72 on, for a body already decoded: the project
  \<open>proj\<close>, the decoded \<open>payload\<close>, the form value \<open>forceUpdate\<close>, the \<open>Accept-Language\<close>
  header \<open>al\<close> and the committed rows \<open>db\<close> of the store. The result is what the handler hands
  back and the state it leaves.
\<close>

definition importApplicationHandler ::
  "Collab \<Rightarrow> Project \<Rightarrow> Payload \<Rightarrow> bool \<Rightarrow> string \<Rightarrow> Row list \<Rightarrow> Outcome \<times> State" where
  "importApplicationHandler c proj payload forceUpdate al db =
     (let s0 = \<lparr>sent = [], globalError = None, rows = db, pending = [], txlog = []\<rparr> in
      case Exists c db (Project_ID proj) (Payload_Name payload) of
        Inl errE \<Rightarrow>
          (WrapError (Some errE) ''importApplicationHandler> Unable to check if application %s exists'', s0)
      | Inr exist \<Rightarrow>
          (case Payload_Application payload of
             Inl errP \<Rightarrow>
               (WrapError (Some errP) ''importApplicationHandler> Unable to parse application %s'', s0)
           | Inr app0 \<Rightarrow>
               (case loadGroups c db (ApplicationGroups app0) of
                  Inl errg \<Rightarrow>
                    (WrapError (Some errg) ''importApplicationHandler> Error loading groups for permission'', s0)
                | Inr gs \<Rightarrow>
                    (case Begin c db of
                       Some errBegin \<Rightarrow>
                         (WrapError (Some errBegin) ''importApplicationHandler> Cannot start transaction'', s0)
                     | None \<Rightarrow>
                         (case body c proj (app0\<lparr>ApplicationGroups := gs\<rparr>) exist forceUpdate al
                                 (s0\<lparr>txlog := [TxBegin]\<rparr>) of
                            (out, s) \<Rightarrow> (out, Rollback s))))))"

section \<open>The references of a descriptor, as the specification words them\<close>

text \<open>
  The references validation looks up, in the order of the traversal: for each pipeline usage
  its pipeline, then for each of its triggers the destination application (unless it is the
  application being imported), the source environment and the destination environment
  (unless they are the default one).
\<close>

datatype Reference = PipelineRef string | ApplicationRef string | EnvironmentRef string

definition triggerRefs :: "Collab \<Rightarrow> Application \<Rightarrow> Trigger \<Rightarrow> Reference list" where
  "triggerRefs c app t =
     (if DestApplication_Name t \<noteq> App_Name app then [ApplicationRef (DestApplication_Name t)] else [])
     @ (if Environment_Name (SrcEnvironment t) \<noteq> Environment_Name (DefaultEnv c)
        then [EnvironmentRef (Environment_Name (SrcEnvironment t))] else [])
     @ (if Environment_Name (DestEnvironment t) \<noteq> Environment_Name (DefaultEnv c)
        then [EnvironmentRef (Environment_Name (DestEnvironment t))] else [])"

definition usageRefs :: "Collab \<Rightarrow> Application \<Rightarrow> ApplicationPipeline \<Rightarrow> Reference list" where
  "usageRefs c app p =
     PipelineRef (Pipeline_Name (Pipeline p)) # concat (map (triggerRefs c app) (Triggers p))"

definition references :: "Collab \<Rightarrow> Application \<Rightarrow> Reference list" where
  "references c app = concat (map (usageRefs c app) (Pipelines app))"

text \<open>The existence lookup of a reference against the rows \<open>v\<close> of the project.\<close>

fun lookupRef :: "Collab \<Rightarrow> Project \<Rightarrow> Row list \<Rightarrow> Reference \<Rightarrow> error + bool" where
  "lookupRef c proj v (PipelineRef n) = ExistPipeline c v (Project_ID proj) n"
| "lookupRef c proj v (ApplicationRef n) = Exists c v (Project_ID proj) n"
| "lookupRef c proj v (EnvironmentRef n) = EnvExists c v (Project_Key proj) n"

definition missing :: "Collab \<Rightarrow> Project \<Rightarrow> Row list \<Rightarrow> Reference \<Rightarrow> bool" where
  "missing c proj v r = (lookupRef c proj v r = Inr False)"

text \<open>The "not found" diagnostic and the error kind of a missing reference.\<close>

fun notFoundMessage :: "Reference \<Rightarrow> Message" where
  "notFoundMessage (PipelineRef n) = NewMessage MsgAppImportPipelineNotFound [n]"
| "notFoundMessage (ApplicationRef n) = NewMessage MsgAppImportAppNotFound [n]"
| "notFoundMessage (EnvironmentRef n) = NewMessage MsgAppImportEnvNotFound [n]"

fun notFoundError :: "Reference \<Rightarrow> SdkError" where
  "notFoundError (PipelineRef n) = ErrPipelineNotFound"
| "notFoundError (ApplicationRef n) = ErrApplicationNotFound"
| "notFoundError (EnvironmentRef n) = ErrNoEnvironment"

text \<open>
  What collecting the missing references \<open>ms\<close> does to the state: one diagnostic each, in
  order, and \<open>globalError\<close> is the error kind of the last one.
\<close>

definition noteMissing :: "Reference list \<Rightarrow> State \<Rightarrow> State" where
  "noteMissing ms s =
     s\<lparr>sent := sent s @ map notFoundMessage ms,
       globalError := (if ms = [] then globalError s else Some (SdkError (notFoundError (last ms))))\<rparr>"

section \<open>The resolution of a notification, as the specification words it\<close>

text \<open>
  The pipeline name is looked up among the descriptor's pipelines; the environment name,
  when empty or the default one, stands for the default environment, otherwise it is looked
  up among the project's environments. Zero is "not found".
\<close>

definition specPipelineID :: "ApplicationPipeline list \<Rightarrow> string \<Rightarrow> int64" where
  "specPipelineID ps n =
     (case find (\<lambda>p. Pipeline_Name (Pipeline p) = n) ps of
        None \<Rightarrow> 0 | Some p \<Rightarrow> Pipeline_ID (Pipeline p))"

definition specEnvironmentID :: "Collab \<Rightarrow> Project \<Rightarrow> string \<Rightarrow> int64" where
  "specEnvironmentID c proj n =
     (if n = [] \<or> n = Environment_Name (DefaultEnv c) then Environment_ID (DefaultEnv c)
      else (case find (\<lambda>e. Environment_Name e = n) (Environments proj) of
              None \<Rightarrow> 0 | Some e \<Rightarrow> Environment_ID e))"

definition specNotification :: "Collab \<Rightarrow> UserNotification \<Rightarrow> UserNotification" where
  "specNotification c notif =
     (if Environment_Name (Notif_Environment notif) = []
         \<or> Environment_Name (Notif_Environment notif) = Environment_Name (DefaultEnv c)
      then notif\<lparr>Notif_Environment := DefaultEnv c\<rparr> else notif)"

section \<open>Sample collaborators\<close>

text \<open>
  Modelled from the spec: the packages \<open>application\<close>, \<open>pipeline\<close>, \<open>environment\<close>, \<open>group\<close>,
  \<open>hook\<close>, \<open>poller\<close>, \<open>notification\<close>, \<open>project\<close>, \<open>sanity\<close> and \<open>sdk\<close> are not in the
  source file. The sample below follows section 6 of the specification (existence lookups
  against the catalog, inserts that record one row) and is only used to run the handler on
  concrete inputs; every general theorem holds for all collaborators.
\<close>

fun rowPipelineID :: "Row list \<Rightarrow> string \<Rightarrow> int64" where
  "rowPipelineID [] n = 0"
| "rowPipelineID (PipelineRow m i # rs) n = (if m = n then i else rowPipelineID rs n)"
| "rowPipelineID (r # rs) n = rowPipelineID rs n"

fun rowEnvironment :: "Row list \<Rightarrow> string \<Rightarrow> bool" where
  "rowEnvironment [] n = False"
| "rowEnvironment (EnvironmentRow m i # rs) n = (m = n \<or> rowEnvironment rs n)"
| "rowEnvironment (r # rs) n = rowEnvironment rs n"

text \<open>
  Modelled from the spec: \<open>application.Import\<close> creates the application record and loads
  the pipelines the descriptor uses, filling in their identifiers.
\<close>

definition sampleImport ::
  "Row list \<Rightarrow> Project \<Rightarrow> Application \<Rightarrow> error option \<times> Application \<times> Row list \<times> Message list" where
  "sampleImport v proj app =
     (None,
      app\<lparr>App_ID := 7,
          Pipelines := map (\<lambda>p. p\<lparr>Pipeline := (Pipeline p)\<lparr>Pipeline_ID := rowPipelineID v (Pipeline_Name (Pipeline p))\<rparr>\<rparr>)
                         (Pipelines app)\<rparr>,
      [ApplicationRow (App_Name app)],
      [NewMessage (MsgOther 0) [App_Name app]])"

text \<open>Modelled from the spec: a message renders to a text built from its kind and arguments.\<close>

fun sampleString :: "Message \<Rightarrow> string \<Rightarrow> string" where
  "sampleString (Message None args) al = []"
| "sampleString (Message (Some MsgAppImportPipelineNotFound) args) al = ''Pipeline '' @ concat args @ '' not found''"
| "sampleString (Message (Some MsgAppImportAppNotFound) args) al = ''Application '' @ concat args @ '' not found''"
| "sampleString (Message (Some MsgAppImportEnvNotFound) args) al = ''Environment '' @ concat args @ '' not found''"
| "sampleString (Message (Some MsgHookCreated) args) al = ''Hook created''"
| "sampleString (Message (Some MsgPollerCreated) args) al = ''Poller created''"
| "sampleString (Message (Some (MsgOther k)) args) al = ''Application '' @ concat args @ '' created''"

fun sampleStatus :: "SdkError \<Rightarrow> nat" where
  "sampleStatus ErrWrongRequest = 400"
| "sampleStatus ErrApplicationExist = 409"
| "sampleStatus ErrPipelineNotFound = 404"
| "sampleStatus ErrApplicationNotFound = 404"
| "sampleStatus ErrNoEnvironment = 404"
| "sampleStatus (ErrSdk k) = 500"

definition sampleCollab :: Collab where
  "sampleCollab =
     \<lparr>Exists = (\<lambda>v pid n. Inr (ApplicationRow n \<in> set v)),
      LoadGroup = (\<lambda>v n. Inr \<lparr>Group_ID = 1, Group_Name = n\<rparr>),
      Begin = (\<lambda>v. None),
      ExistPipeline = (\<lambda>v pid n. Inr (rowPipelineID v n \<noteq> 0)),
      EnvExists = (\<lambda>v k n. Inr (rowEnvironment v n)),
      Import = sampleImport,
      CreateHook = (\<lambda>v k app p. (None, [HookRow (App_Name app) (Pipeline_Name p)])),
      PollerInsert = (\<lambda>v app p. (None, [PollerRow (App_Name app) (Pipeline_Name p)])),
      InsertOrUpdateUserNotificationSettings = (\<lambda>v a p e n. (None, [NotificationRow a p e])),
      UpdateLastModified = (\<lambda>v proj. (None, [ProjectModifiedRow (Project_Key proj)])),
      Commit = (\<lambda>w. None),
      LoadAll = (\<lambda>v k. None),
      CheckApplication = (\<lambda>v proj app. (None, [])),
      DefaultEnv = \<lparr>Environment_ID = 1, Environment_Name = ''NoEnv''\<rparr>,
      String = sampleString,
      Status = sampleStatus\<rparr>"

text \<open>A project \<open>PRJ\<close> whose store holds the pipelines \<open>build\<close> and \<open>deploy\<close> and the
  environment \<open>prod\<close>.\<close>

definition sampleProject :: Project where
  "sampleProject = \<lparr>Project_ID = 1, Project_Key = ''PRJ'',
                    Environments = [\<lparr>Environment_ID = 5, Environment_Name = ''prod''\<rparr>]\<rparr>"

definition sampleRows :: "Row list" where
  "sampleRows = [PipelineRow ''build'' 3, PipelineRow ''deploy'' 4, EnvironmentRow ''prod'' 5]"

definition namedPipeline :: "string \<Rightarrow> Pipeline" where
  "namedPipeline n = \<lparr>Pipeline_ID = 0, Pipeline_Name = n\<rparr>"

definition namedEnvironment :: "string \<Rightarrow> Environment" where
  "namedEnvironment n = \<lparr>Environment_ID = 0, Environment_Name = n\<rparr>"

text \<open>A descriptor \<open>app\<close> that uses the pipeline \<open>build\<close> and is bound to a repository.\<close>

definition sampleApp :: Application where
  "sampleApp =
     \<lparr>App_ID = 0, App_Name = ''app'', ApplicationGroups = [],
      Pipelines = [\<lparr>Pipeline = namedPipeline ''build'', Triggers = []\<rparr>],
      Hooks = [], RepositoryPollers = [], Notifications = [],
      RepositoriesManager = Some ''github'', RepositoryFullname = ''org/app''\<rparr>"

definition payloadOf :: "Application \<Rightarrow> Payload" where
  "payloadOf app = \<lparr>Payload_Name = App_Name app, Payload_Application = Inr app\<rparr>"

text \<open>A descriptor with four missing references: the pipelines \<open>ghost\<close> and \<open>phantom\<close>, the
  application \<open>other\<close> and the environment \<open>staging\<close>.\<close>

definition brokenApp :: Application where
  "brokenApp =
     sampleApp\<lparr>Pipelines :=
       [\<lparr>Pipeline = namedPipeline ''ghost'',
         Triggers = [\<lparr>SrcEnvironment = namedEnvironment ''NoEnv'',
                      DestApplication_Name = ''other'',
                      DestEnvironment = namedEnvironment ''staging''\<rparr>]\<rparr>,
        \<lparr>Pipeline = namedPipeline ''build'', Triggers = []\<rparr>,
        \<lparr>Pipeline = namedPipeline ''phantom'', Triggers = []\<rparr>]\<rparr>"

text \<open>The descriptor \<open>app\<close> with one hook on the pipeline \<open>build\<close> it uses.\<close>

definition hookedApp :: Application where
  "hookedApp = sampleApp\<lparr>Hooks := [\<lparr>Hook_Pipeline = namedPipeline ''build''\<rparr>]\<rparr>"

text \<open>The descriptor \<open>app\<close> with a hook on \<open>build\<close> and then a hook on \<open>ghost\<close>, a pipeline
  that is neither in the descriptor nor in the project.\<close>

definition twoHooksApp :: Application where
  "twoHooksApp = sampleApp\<lparr>Hooks := [\<lparr>Hook_Pipeline = namedPipeline ''build''\<rparr>,
                                   \<lparr>Hook_Pipeline = namedPipeline ''ghost''\<rparr>]\<rparr>"

text \<open>The descriptor \<open>app\<close> with a hook on \<open>deploy\<close>, a pipeline of the project that the
  descriptor does not use.\<close>

definition strayHookApp :: Application where
  "strayHookApp = sampleApp\<lparr>Hooks := [\<lparr>Hook_Pipeline = namedPipeline ''deploy''\<rparr>]\<rparr>"

text \<open>The same for a poller.\<close>

definition strayPollerApp :: Application where
  "strayPollerApp = sampleApp\<lparr>RepositoryPollers := [\<lparr>Poller_Pipeline = namedPipeline ''deploy''\<rparr>]\<rparr>"

text \<open>The store of the sample project when the application \<open>app\<close> is already there.\<close>

definition existingRows :: "Row list" where
  "existingRows = ApplicationRow ''app'' # sampleRows"

text \<open>Collaborators whose \<open>hook.CreateHook\<close> fails with a store error.\<close>

definition failingHookCollab :: Collab where
  "failingHookCollab = sampleCollab\<lparr>CreateHook := (\<lambda>v k app p. (Some (OtherError ''insert failed''), []))\<rparr>"

text \<open>Collaborators whose \<open>db.Begin\<close> fails.\<close>

definition failingBeginCollab :: Collab where
  "failingBeginCollab = sampleCollab\<lparr>Begin := (\<lambda>v. Some (OtherError ''no connection''))\<rparr>"

text \<open>The descriptor \<open>app\<close> as \<open>application.Import\<close> leaves it: created with identifier 7,
  its pipeline \<open>build\<close> loaded with identifier 3.\<close>

definition loadedApp :: Application where
  "loadedApp = sampleApp\<lparr>App_ID := 7,
                 Pipelines := [\<lparr>Pipeline = \<lparr>Pipeline_ID = 3, Pipeline_Name = ''build''\<rparr>, Triggers = []\<rparr>]\<rparr>"

text \<open>The state right after the transaction is opened on the sample store.\<close>

definition openState :: State where
  "openState = \<lparr>sent = [], globalError = None, rows = sampleRows, pending = [], txlog = [TxBegin]\<rparr>"

definition namedNotification :: "string \<Rightarrow> string \<Rightarrow> UserNotification" where
  "namedNotification p e = \<lparr>Notif_Pipeline = namedPipeline p, Notif_Environment = namedEnvironment e\<rparr>"

text \<open>An \<open>application.Import\<close> that always fails with a store error.\<close>

definition failingImport ::
  "Row list \<Rightarrow> Project \<Rightarrow> Application \<Rightarrow> error option \<times> Application \<times> Row list \<times> Message list" where
  "failingImport v proj app = (Some (OtherError ''import failed''), app, [], [])"

section \<open>The aggregator: draining and rendering\<close>

lemma msgFound_iff: "msgFound xs s found = (found \<or> s \<in> set xs)"
  by (induction xs arbitrary: found) auto

lemma filter_notin_snoc:
  "filter (\<lambda>y. y \<noteq> s) (filter (\<lambda>y. y \<notin> set acc) xs) = filter (\<lambda>y. y \<notin> set (acc @ [s])) xs"
  by (induction xs) auto

lemma renderLoop_acc:
  "renderLoop str ms acc =
     acc @ firstOccurrences (filter (\<lambda>s. s \<notin> set acc) (filter (\<lambda>s. s \<noteq> []) (map str ms)))"
proof (induction ms arbitrary: acc)
  case Nil
  show ?case by simp
next
  case (Cons m ms)
  show ?case
  proof (cases "str m = [] \<or> str m \<in> set acc")
    case True
    then show ?thesis using Cons.IH [of acc] by (auto simp: msgFound_iff Let_def)
  next
    case False
    then show ?thesis using Cons.IH [of "acc @ [str m]"]
      by (simp add: msgFound_iff Let_def filter_notin_snoc conj_ac)
  qed
qed

lemma renderLoop_spec:
  "renderLoop str ms [] = firstOccurrences (filter (\<lambda>s. s \<noteq> []) (map str ms))"
  by (simp add: renderLoop_acc)

lemma set_firstOccurrences: "set (firstOccurrences xs) = set xs"
  by (induction xs rule: firstOccurrences.induct) auto

lemma distinct_firstOccurrences: "distinct (firstOccurrences xs)"
  by (induction xs rule: firstOccurrences.induct) (auto simp: set_firstOccurrences)

lemma renderLoop_append:
  "renderLoop str (ms1 @ ms2) acc = renderLoop str ms2 (renderLoop str ms1 acc)"
  by (induction ms1 arbitrary: acc) (auto simp: Let_def)

lemma renderLoop_extends: "\<exists>ys. renderLoop str ms acc = acc @ ys"
  by (simp add: renderLoop_acc)

lemma renderLoop_snoc:
  "renderLoop str (ms @ [m]) [] =
     renderLoop str ms [] @ (if str m = [] \<or> str m \<in> set (renderLoop str ms []) then [] else [str m])"
  by (simp add: renderLoop_append msgFound_iff Let_def)

lemma renderLoop_twice:
  "renderLoop str (ms1 @ [m] @ ms2 @ [m] @ ms3) [] = renderLoop str (ms1 @ [m] @ ms2 @ ms3) []"
proof -
  have "str m \<noteq> [] \<Longrightarrow> str m \<in> set (renderLoop str (ms1 @ [m] @ ms2) [])"
    by (simp add: renderLoop_spec set_firstOccurrences)
  then have "renderLoop str ((ms1 @ [m] @ ms2) @ [m]) [] = renderLoop str (ms1 @ [m] @ ms2) []"
    unfolding renderLoop_snoc by auto
  then have "renderLoop str (((ms1 @ [m] @ ms2) @ [m]) @ ms3) []
             = renderLoop str ((ms1 @ [m] @ ms2) @ ms3) []"
    unfolding renderLoop_append [of str _ ms3] by simp
  then show ?thesis by simp
qed

lemma renderLoop_take:
  "take (length (renderLoop str ms1 [])) (renderLoop str (ms1 @ ms2) []) = renderLoop str ms1 []"
proof -
  obtain ys where "renderLoop str ms2 (renderLoop str ms1 []) = renderLoop str ms1 [] @ ys"
    using renderLoop_extends by blast
  then show ?thesis by (simp add: renderLoop_append)
qed

lemma consumer_eq: "consumer allMsg ch = allMsg @ ch @ [zeroMessage]"
proof (induction ch arbitrary: allMsg)
  case Nil
  show ?case by (subst consumer.simps) (simp add: recv_def)
next
  case (Cons m ch)
  show ?case by (subst consumer.simps) (simp add: recv_def Cons.IH)
qed

text \<open>
  C7. Whatever the messages in the buffer, the rendered list is the first-occurrence
  deduplication of the non-empty rendered texts: it has no text twice, it holds exactly the
  non-empty renderings, a message emitted a second time adds nothing, and the list rendered
  from a prefix of the messages is kept as the beginning of the list rendered from all of
  them (so every text stays at its first-occurrence position).
\<close>

theorem msgListString_first_occurrences:
  "msgListString c al ms = firstOccurrences (filter (\<lambda>s. s \<noteq> []) (map (\<lambda>m. String c m al) ms))
   \<and> distinct (msgListString c al ms)
   \<and> set (msgListString c al ms) = (\<lambda>m. String c m al) ` set ms - {[]}
   \<and> msgListString c al (ms1 @ [m] @ ms2 @ [m] @ ms3) = msgListString c al (ms1 @ [m] @ ms2 @ ms3)
   \<and> take (length (msgListString c al ms1)) (msgListString c al (ms1 @ ms2)) = msgListString c al ms1"
proof -
  have spec: "msgListString c al ms = firstOccurrences (filter (\<lambda>s. s \<noteq> []) (map (\<lambda>m. String c m al) ms))"
    unfolding msgListString_def by (rule renderLoop_spec)
  have dist: "distinct (msgListString c al ms)"
    unfolding spec by (rule distinct_firstOccurrences)
  have elems: "set (msgListString c al ms) = (\<lambda>m. String c m al) ` set ms - {[]}"
    unfolding spec set_firstOccurrences by auto
  have twice: "msgListString c al (ms1 @ [m] @ ms2 @ [m] @ ms3) = msgListString c al (ms1 @ [m] @ ms2 @ ms3)"
    unfolding msgListString_def by (rule renderLoop_twice)
  have pre: "take (length (msgListString c al ms1)) (msgListString c al (ms1 @ ms2)) = msgListString c al ms1"
    unfolding msgListString_def by (rule renderLoop_take)
  from spec dist elems twice pre show ?thesis by blast
qed

text \<open>
  C10. When the channel is closed after \<open>k\<close> messages were sent, the consumer's buffer holds
  the \<open>k\<close> messages in order followed by one zero-value message, \<open>k + 1\<close> elements; and the
  rendered list equals the one rendered from the messages sent exactly when the zero-value
  message renders to the empty text or to a text already in the list.
\<close>

theorem consumer_appends_zero_message:
  "consumer [] ms = ms @ [zeroMessage]
   \<and> length (consumer [] ms) = length ms + 1
   \<and> ((msgListString c al (consumer [] ms) = msgListString c al ms)
        = (String c zeroMessage al = [] \<or> String c zeroMessage al \<in> set (msgListString c al ms)))"
proof -
  have buf: "consumer [] ms = ms @ [zeroMessage]"
    by (simp add: consumer_eq)
  have "(msgListString c al (ms @ [zeroMessage]) = msgListString c al ms)
        = (String c zeroMessage al = [] \<or> String c zeroMessage al \<in> set (msgListString c al ms))"
    unfolding msgListString_def renderLoop_snoc by auto
  with buf show ?thesis by simp
qed

section \<open>Validation\<close>

lemma noteMissing_Nil: "noteMissing [] s = s"
  by (simp add: noteMissing_def)

lemma noteMissing_append: "noteMissing (a @ b) s = noteMissing b (noteMissing a s)"
  by (simp add: noteMissing_def)

lemma txView_noteMissing: "txView (noteMissing ms s) = txView s"
  by (simp add: noteMissing_def txView_def)

lemma checkDestApplication_refs:
  assumes "DestApplication_Name t \<noteq> App_Name app \<Longrightarrow>
             \<exists>b. Exists c (txView s) (Project_ID proj) (DestApplication_Name t) = Inr b"
  shows "checkDestApplication c proj app t s =
           (None, noteMissing (filter (missing c proj (txView s))
                    (if DestApplication_Name t \<noteq> App_Name app then [ApplicationRef (DestApplication_Name t)] else [])) s)"
  using assms
  by (auto simp: checkDestApplication_def missing_def noteMissing_def send_def)

lemma checkEnvironment_refs:
  assumes "Environment_Name e \<noteq> Environment_Name (DefaultEnv c) \<Longrightarrow>
             \<exists>b. EnvExists c (txView s) (Project_Key proj) (Environment_Name e) = Inr b"
  shows "checkEnvironment c proj e s =
           (None, noteMissing (filter (missing c proj (txView s))
                    (if Environment_Name e \<noteq> Environment_Name (DefaultEnv c) then [EnvironmentRef (Environment_Name e)] else [])) s)"
  using assms
  by (auto simp: checkEnvironment_def missing_def noteMissing_def send_def)

lemma checkTriggers_refs:
  assumes "\<forall>r \<in> set (concat (map (triggerRefs c app) ts)). \<exists>b. lookupRef c proj (txView s) r = Inr b"
  shows "checkTriggers c proj app ts s =
           (None, noteMissing (filter (missing c proj (txView s)) (concat (map (triggerRefs c app) ts))) s)"
  using assms
proof (induction ts arbitrary: s)
  case Nil
  show ?case by (simp add: noteMissing_Nil)
next
  case (Cons t ts)
  let ?v = "txView s"
  let ?a = "if DestApplication_Name t \<noteq> App_Name app then [ApplicationRef (DestApplication_Name t)] else []"
  let ?e1 = "if Environment_Name (SrcEnvironment t) \<noteq> Environment_Name (DefaultEnv c)
        then [EnvironmentRef (Environment_Name (SrcEnvironment t))] else []"
  let ?e2 = "if Environment_Name (DestEnvironment t) \<noteq> Environment_Name (DefaultEnv c)
        then [EnvironmentRef (Environment_Name (DestEnvironment t))] else []"
  have refs: "triggerRefs c app t = ?a @ ?e1 @ ?e2" by (simp add: triggerRefs_def)
  have all: "\<forall>r \<in> set (triggerRefs c app t). \<exists>b. lookupRef c proj ?v r = Inr b"
    using Cons.prems by simp
  let ?s1 = "noteMissing (filter (missing c proj ?v) ?a) s"
  let ?s2 = "noteMissing (filter (missing c proj ?v) ?e1) ?s1"
  let ?s3 = "noteMissing (filter (missing c proj ?v) ?e2) ?s2"
  have 1: "checkDestApplication c proj app t s = (None, ?s1)"
    by (rule checkDestApplication_refs) (use all refs in auto)
  have 2: "checkEnvironment c proj (SrcEnvironment t) ?s1 = (None, ?s2)"
    using checkEnvironment_refs [of "SrcEnvironment t" c ?s1 proj] all refs by (auto simp: txView_noteMissing)
  have 3: "checkEnvironment c proj (DestEnvironment t) ?s2 = (None, ?s3)"
    using checkEnvironment_refs [of "DestEnvironment t" c ?s2 proj] all refs by (auto simp: txView_noteMissing)
  have v3: "txView ?s3 = ?v" by (simp add: txView_noteMissing)
  have rest: "checkTriggers c proj app ts ?s3 =
           (None, noteMissing (filter (missing c proj ?v) (concat (map (triggerRefs c app) ts))) ?s3)"
    using Cons.IH [of ?s3] Cons.prems unfolding v3 by simp
  have "checkTriggers c proj app (t # ts) s = checkTriggers c proj app ts ?s3"
    by (simp add: 1 2 3)
  also note rest
  finally show ?case
    by (simp only: refs concat.simps list.map filter_append noteMissing_append append_assoc)
qed

lemma checkPipelines_refs:
  assumes "\<forall>r \<in> set (concat (map (usageRefs c app) ps)). \<exists>b. lookupRef c proj (txView s) r = Inr b"
  shows "checkPipelines c proj app ps s =
           (None, noteMissing (filter (missing c proj (txView s)) (concat (map (usageRefs c app) ps))) s)"
  using assms
proof (induction ps arbitrary: s)
  case Nil
  show ?case by (simp add: noteMissing_Nil)
next
  case (Cons p ps)
  let ?v = "txView s"
  let ?n = "Pipeline_Name (Pipeline p)"
  let ?ts = "concat (map (triggerRefs c app) (Triggers p))"
  have refs: "usageRefs c app p = [PipelineRef ?n] @ ?ts" by (simp add: usageRefs_def)
  obtain ok where ok: "ExistPipeline c ?v (Project_ID proj) ?n = Inr ok"
    using Cons.prems refs by auto
  let ?s1 = "noteMissing (filter (missing c proj ?v) [PipelineRef ?n]) s"
  let ?s2 = "noteMissing (filter (missing c proj ?v) ?ts) ?s1"
  have s1: "(if \<not> ok then (send (NewMessage MsgAppImportPipelineNotFound [?n]) s)
                            \<lparr>globalError := Some (SdkError ErrPipelineNotFound)\<rparr> else s) = ?s1"
    using ok by (auto simp: missing_def noteMissing_def send_def)
  have 2: "checkTriggers c proj app (Triggers p) ?s1 = (None, ?s2)"
    using checkTriggers_refs [of c app "Triggers p" proj ?s1] Cons.prems refs by (simp add: txView_noteMissing)
  have v2: "txView ?s2 = ?v" by (simp add: txView_noteMissing)
  have rest: "checkPipelines c proj app ps ?s2 =
           (None, noteMissing (filter (missing c proj ?v) (concat (map (usageRefs c app) ps))) ?s2)"
    using Cons.IH [of ?s2] Cons.prems unfolding v2 by simp
  have "checkPipelines c proj app (p # ps) s = checkPipelines c proj app ps ?s2"
    using ok 2 by (simp add: s1 Let_def)
  also note rest
  finally show ?case
    by (simp only: refs concat.simps list.map filter_append noteMissing_append append_assoc)
qed

lemma triggerRefs_groups: "triggerRefs c (app\<lparr>ApplicationGroups := gs\<rparr>) = triggerRefs c app"
  by (rule ext) (simp add: triggerRefs_def)

lemma usageRefs_groups: "usageRefs c (app\<lparr>ApplicationGroups := gs\<rparr>) = usageRefs c app"
  by (rule ext) (simp add: usageRefs_def triggerRefs_groups)

lemma references_groups: "references c (app\<lparr>ApplicationGroups := gs\<rparr>) = references c app"
  by (simp add: references_def usageRefs_groups)

lemma handler_prelude:
  assumes "Exists c db (Project_ID proj) (Payload_Name payload) = Inr exist"
    and "Payload_Application payload = Inr app0"
    and "loadGroups c db (ApplicationGroups app0) = Inr gs"
    and "Begin c db = None"
  shows "importApplicationHandler c proj payload forceUpdate al db =
           (case body c proj (app0\<lparr>ApplicationGroups := gs\<rparr>) exist forceUpdate al
                   \<lparr>sent = [], globalError = None, rows = db, pending = [], txlog = [TxBegin]\<rparr> of
              (out, s) \<Rightarrow> (out, Rollback s))"
  using assms by (simp add: importApplicationHandler_def)

lemma finish_rejects:
  assumes "globalError s = Some (SdkError e)"
  shows "finish c proj app al s = (WriteJSON (msgListString c al (sent s @ [zeroMessage])) (Status c e), s)"
  using assms by (simp add: finish_def consumer_eq)

lemma applyPhase_skipped:
  assumes "globalError s \<noteq> None"
  shows "applyPhase c proj app exist s = ((None, s), app)"
  using assms by (auto simp: applyPhase_def)

lemma body_rejects:
  assumes "\<not> (exist \<and> \<not> forceUpdate)"
    and "checkPipelines c proj app (Pipelines app) s = (None, s1)"
    and "globalError s1 = Some (SdkError e)"
  shows "body c proj app exist forceUpdate al s =
           (WriteJSON (msgListString c al (sent s1 @ [zeroMessage])) (Status c e), s1)"
  using assms by (simp add: body_def applyPhase_skipped finish_rejects)

lemma list_all_noerr:
  "list_all (\<lambda>r. \<not> isl (lookupRef c proj v r)) rs \<Longrightarrow> \<forall>r \<in> set rs. \<exists>b. lookupRef c proj v r = Inr b"
  by (auto simp: list_all_iff isl_def) (metis sum.exhaust_sel)

text \<open>
  C4. When no existence lookup fails with a store error and the descriptor has \<open>N \<ge> 1\<close>
  missing references \<open>ms\<close> (listed in the order of the traversal), the handler sends exactly
  the \<open>N\<close> "not found" diagnostics of \<open>ms\<close>, in that order, and rejects the import: the
  response is the rendered list with the status of the last missing reference's error, and
  the store is left as it was.
\<close>

theorem validation_reports_every_missing_reference:
  assumes "Exists c db (Project_ID proj) (Payload_Name payload) = Inr exist"
    and "Payload_Application payload = Inr app"
    and "loadGroups c db (ApplicationGroups app) = Inr gs"
    and "Begin c db = None"
    and "\<not> (exist \<and> \<not> forceUpdate)"
    and "list_all (\<lambda>r. \<not> isl (lookupRef c proj db r)) (references c app)"
    and "ms = filter (missing c proj db) (references c app)"
    and "ms \<noteq> []"
  shows "importApplicationHandler c proj payload forceUpdate al db =
           (WriteJSON (msgListString c al (map notFoundMessage ms @ [zeroMessage]))
                      (Status c (notFoundError (last ms))),
            \<lparr>sent = map notFoundMessage ms,
             globalError = Some (SdkError (notFoundError (last ms))),
             rows = db, pending = [], txlog = [TxBegin, TxRollback]\<rparr>)"
proof -
  let ?app = "app\<lparr>ApplicationGroups := gs\<rparr>"
  let ?s0 = "\<lparr>sent = [], globalError = None, rows = db, pending = [], txlog = [TxBegin]\<rparr>"
  have v: "txView ?s0 = db" by (simp add: txView_def)
  have refs: "concat (map (usageRefs c ?app) (Pipelines ?app)) = references c app"
    by (simp add: references_def usageRefs_groups)
  have "\<forall>r \<in> set (concat (map (usageRefs c ?app) (Pipelines ?app))). \<exists>b. lookupRef c proj (txView ?s0) r = Inr b"
    unfolding refs v using assms(6) by (rule list_all_noerr)
  then have val: "checkPipelines c proj ?app (Pipelines ?app) ?s0 = (None, noteMissing ms ?s0)"
    using checkPipelines_refs [of c ?app "Pipelines ?app" proj ?s0] unfolding refs v assms(7) by simp
  have ge: "globalError (noteMissing ms ?s0) = Some (SdkError (notFoundError (last ms)))"
    using assms(8) by (simp add: noteMissing_def)
  have "body c proj ?app exist forceUpdate al ?s0 =
          (WriteJSON (msgListString c al (sent (noteMissing ms ?s0) @ [zeroMessage]))
                     (Status c (notFoundError (last ms))), noteMissing ms ?s0)"
    using assms(5) val ge by (rule body_rejects)
  then show ?thesis
    using assms(8) by (simp add: handler_prelude [OF assms(1-4)] noteMissing_def Rollback_def)
qed

theorem validation_reports_every_missing_reference_witness:
  "list_all (\<lambda>r. \<not> isl (lookupRef sampleCollab sampleProject sampleRows r)) (references sampleCollab brokenApp)
   \<and> filter (missing sampleCollab sampleProject sampleRows) (references sampleCollab brokenApp)
       = [PipelineRef ''ghost'', ApplicationRef ''other'', EnvironmentRef ''staging'', PipelineRef ''phantom'']
   \<and> importApplicationHandler sampleCollab sampleProject (payloadOf brokenApp) False ''en'' sampleRows =
       (WriteJSON [''Pipeline ghost not found'', ''Application other not found'',
                   ''Environment staging not found'', ''Pipeline phantom not found''] 404,
        \<lparr>sent = [NewMessage MsgAppImportPipelineNotFound [''ghost''],
                 NewMessage MsgAppImportAppNotFound [''other''],
                 NewMessage MsgAppImportEnvNotFound [''staging''],
                 NewMessage MsgAppImportPipelineNotFound [''phantom'']],
         globalError = Some (SdkError ErrPipelineNotFound),
         rows = sampleRows, pending = [], txlog = [TxBegin, TxRollback]\<rparr>)"
proof -
  have h1: "Exists sampleCollab sampleRows (Project_ID sampleProject) (Payload_Name (payloadOf brokenApp)) = Inr False"
    by code_simp
  have h2: "Payload_Application (payloadOf brokenApp) = Inr brokenApp"
    by (simp add: payloadOf_def)
  have h3: "loadGroups sampleCollab sampleRows (ApplicationGroups brokenApp) = Inr []"
    by code_simp
  have h4: "Begin sampleCollab sampleRows = None"
    by (simp add: sampleCollab_def)
  have h5: "\<not> (False \<and> \<not> False)" by simp
  have h6: "list_all (\<lambda>r. \<not> isl (lookupRef sampleCollab sampleProject sampleRows r)) (references sampleCollab brokenApp)"
    by code_simp
  have h7: "[PipelineRef ''ghost'', ApplicationRef ''other'', EnvironmentRef ''staging'', PipelineRef ''phantom'']
            = filter (missing sampleCollab sampleProject sampleRows) (references sampleCollab brokenApp)"
    by code_simp
  have h8: "[PipelineRef ''ghost'', ApplicationRef ''other'', EnvironmentRef ''staging'', PipelineRef ''phantom''] \<noteq> []"
    by simp
  have r: "msgListString sampleCollab ''en''
             (map notFoundMessage [PipelineRef ''ghost'', ApplicationRef ''other'', EnvironmentRef ''staging'', PipelineRef ''phantom''] @ [zeroMessage])
           = [''Pipeline ghost not found'', ''Application other not found'',
                   ''Environment staging not found'', ''Pipeline phantom not found'']"
    by code_simp
  have st: "Status sampleCollab ErrPipelineNotFound = 404"
    by (simp add: sampleCollab_def)
  have run: "importApplicationHandler sampleCollab sampleProject (payloadOf brokenApp) False ''en'' sampleRows =
       (WriteJSON [''Pipeline ghost not found'', ''Application other not found'',
                   ''Environment staging not found'', ''Pipeline phantom not found''] 404,
        \<lparr>sent = [NewMessage MsgAppImportPipelineNotFound [''ghost''],
                 NewMessage MsgAppImportAppNotFound [''other''],
                 NewMessage MsgAppImportEnvNotFound [''staging''],
                 NewMessage MsgAppImportPipelineNotFound [''phantom'']],
         globalError = Some (SdkError ErrPipelineNotFound),
         rows = sampleRows, pending = [], txlog = [TxBegin, TxRollback]\<rparr>)"
    using validation_reports_every_missing_reference [OF h1 h2 h3 h4 h5 h6 h7 h8, of "''en''"] r st
    by simp
  from h6 h7 [symmetric] run show ?thesis by blast
qed

section \<open>Runs of the handler on the sample project\<close>

text \<open>
  C1. An import whose first hook is created and whose second hook names a pipeline that is
  nowhere: the handler stops with pipeline-not-found and the transaction is rolled back, but
  the first hook was inserted through \<open>db\<close> (line 191), not through \<open>tx\<close>, and its row is in
  the store after the failed import.
\<close>

theorem hook_survives_failed_import:
  "importApplicationHandler sampleCollab sampleProject (payloadOf twoHooksApp) False ''en'' sampleRows =
     (WrapError (Some (SdkError ErrPipelineNotFound)) ''importApplicationHandler> Pipeline not found for hook %s'',
      \<lparr>sent = [NewMessage (MsgOther 0) [''app''],
               NewMessage MsgHookCreated [''org/app'', ''build''],
               NewMessage MsgAppImportPipelineNotFound [''ghost'']],
       globalError = None,
       rows = sampleRows @ [HookRow ''app'' ''build''],
       pending = [],
       txlog = [TxBegin, TxRollback]\<rparr>)"
  by code_simp

text \<open>
  C3, as stated, fails: for an application that exists and no \<open>forceUpdate\<close> the handler
  answers "already exists", but the transaction was opened (line 109) before the guard of
  line 118 and is rolled back; and when the transaction cannot be opened the answer is that
  error, not "already exists".
\<close>

theorem exists_guard_opens_transaction:
  "Exists sampleCollab existingRows (Project_ID sampleProject) (Payload_Name (payloadOf sampleApp)) = Inr True
   \<and> importApplicationHandler sampleCollab sampleProject (payloadOf sampleApp) False ''en'' existingRows =
       (ReturnError (SdkError ErrApplicationExist),
        \<lparr>sent = [], globalError = None, rows = existingRows, pending = [], txlog = [TxBegin, TxRollback]\<rparr>)
   \<and> fst (importApplicationHandler failingBeginCollab sampleProject (payloadOf sampleApp) False ''en'' existingRows) =
       WrapError (Some (OtherError ''no connection'')) ''importApplicationHandler> Cannot start transaction''"
  by code_simp

text \<open>
  C5, as stated, fails: the pipeline \<open>deploy\<close> exists in the project, but the descriptor does
  not use it, and a hook (or a poller) on it stops the import with pipeline-not-found.
\<close>

theorem existing_project_pipeline_not_resolved:
  "ExistPipeline sampleCollab sampleRows (Project_ID sampleProject) ''deploy'' = Inr True
   \<and> fst (importApplicationHandler sampleCollab sampleProject (payloadOf strayHookApp) False ''en'' sampleRows) =
       WrapError (Some (SdkError ErrPipelineNotFound)) ''importApplicationHandler> Pipeline not found for hook %s''
   \<and> fst (importApplicationHandler sampleCollab sampleProject (payloadOf strayPollerApp) False ''en'' sampleRows) =
       WrapError (Some (SdkError ErrPipelineNotFound)) ''importApplicationHandler> Pipeline %s not found''"
  by code_simp

text \<open>
  C2, as stated, fails: when the insert of a hook fails, the handler returns the wrapped
  error alone; the diagnostic sent before is not part of what the caller gets.
\<close>

theorem failed_apply_returns_no_diagnostics:
  "importApplicationHandler failingHookCollab sampleProject (payloadOf hookedApp) False ''en'' sampleRows =
     (WrapError (Some (OtherError ''insert failed''))
        ''importApplicationHandler> Unable to insert hook on application %s/%s on pipeline %s'',
      \<lparr>sent = [NewMessage (MsgOther 0) [''app'']],
       globalError = None, rows = sampleRows, pending = [], txlog = [TxBegin, TxRollback]\<rparr>)"
  by code_simp

section \<open>The exists guard\<close>

text \<open>
  C3, amended. For an application that exists and no \<open>forceUpdate\<close>, once the payload is
  converted and its groups are loaded: if the transaction can be opened, the handler answers
  "already exists", no diagnostic was sent, the store is unchanged, and the transaction was
  opened and rolled back; if it cannot be opened, the handler answers with that error.
\<close>

theorem exists_guard_after_begin:
  assumes "Exists c db (Project_ID proj) (Payload_Name payload) = Inr True"
    and "\<not> forceUpdate"
    and "Payload_Application payload = Inr app"
    and "loadGroups c db (ApplicationGroups app) = Inr gs"
  shows "(Begin c db = None \<longrightarrow>
            importApplicationHandler c proj payload forceUpdate al db =
              (ReturnError (SdkError ErrApplicationExist),
               \<lparr>sent = [], globalError = None, rows = db, pending = [], txlog = [TxBegin, TxRollback]\<rparr>))
       \<and> (\<forall>e. Begin c db = Some e \<longrightarrow>
            importApplicationHandler c proj payload forceUpdate al db =
              (WrapError (Some e) ''importApplicationHandler> Cannot start transaction'',
               \<lparr>sent = [], globalError = None, rows = db, pending = [], txlog = []\<rparr>))"
  using assms by (simp add: importApplicationHandler_def body_def Rollback_def)

theorem exists_guard_after_begin_witness:
  "importApplicationHandler sampleCollab sampleProject (payloadOf sampleApp) False ''en'' existingRows =
     (ReturnError (SdkError ErrApplicationExist),
      \<lparr>sent = [], globalError = None, rows = existingRows, pending = [], txlog = [TxBegin, TxRollback]\<rparr>)
   \<and> importApplicationHandler failingBeginCollab sampleProject (payloadOf sampleApp) False ''en'' existingRows =
     (WrapError (Some (OtherError ''no connection'')) ''importApplicationHandler> Cannot start transaction'',
      \<lparr>sent = [], globalError = None, rows = existingRows, pending = [], txlog = []\<rparr>)"
proof -
  have e1: "Exists sampleCollab existingRows (Project_ID sampleProject) (Payload_Name (payloadOf sampleApp)) = Inr True"
    by code_simp
  have e2: "Exists failingBeginCollab existingRows (Project_ID sampleProject) (Payload_Name (payloadOf sampleApp)) = Inr True"
    by code_simp
  have f: "\<not> False" by simp
  have p: "Payload_Application (payloadOf sampleApp) = Inr sampleApp"
    by (simp add: payloadOf_def)
  have g1: "loadGroups sampleCollab existingRows (ApplicationGroups sampleApp) = Inr []"
    by code_simp
  have g2: "loadGroups failingBeginCollab existingRows (ApplicationGroups sampleApp) = Inr []"
    by code_simp
  have b1: "Begin sampleCollab existingRows = None"
    by (simp add: sampleCollab_def)
  have b2: "Begin failingBeginCollab existingRows = Some (OtherError ''no connection'')"
    by (simp add: failingBeginCollab_def)
  show ?thesis
    using exists_guard_after_begin [OF e1 f p g1, of "''en''"] exists_guard_after_begin [OF e2 f p g2, of "''en''"] b1 b2
    by simp
qed

section \<open>Resolution of hooks and pollers\<close>

lemma resolvePipeline_find:
  "resolvePipeline ps hp =
     (case find (\<lambda>p. Pipeline_Name (Pipeline p) = Pipeline_Name hp) ps of
        None \<Rightarrow> hp | Some p \<Rightarrow> Pipeline p)"
  by (induction ps) auto

lemma resolvePipeline_name: "Pipeline_Name (resolvePipeline ps hp) = Pipeline_Name hp"
  by (induction ps) auto

lemma manageHooks_unresolved:
  assumes "Pipeline_ID (resolvePipeline (Pipelines app) (Hook_Pipeline h)) = 0"
  shows "manageHooks c proj app (h # hs) s =
           (Some (WrapError (Some (SdkError ErrPipelineNotFound))
                    ''importApplicationHandler> Pipeline not found for hook %s''),
            send (NewMessage MsgAppImportPipelineNotFound [Pipeline_Name (Hook_Pipeline h)]) s)"
  using assms by (simp add: Let_def resolvePipeline_name)

lemma managePollers_unresolved:
  assumes "Pipeline_ID (resolvePipeline (Pipelines app) (Poller_Pipeline h)) = 0"
  shows "managePollers c proj app (h # hs) s =
           (Some (WrapError (Some (SdkError ErrPipelineNotFound))
                    ''importApplicationHandler> Pipeline %s not found''),
            send (NewMessage MsgAppImportPipelineNotFound [Pipeline_Name (Poller_Pipeline h)]) s)"
  using assms by (simp add: Let_def resolvePipeline_name)

lemma manageHooks_stop_cause:
  assumes "fst (manageHooks c proj app hs s) =
             Some (WrapError (Some (SdkError ErrPipelineNotFound))
                     ''importApplicationHandler> Pipeline not found for hook %s'')"
  shows "\<exists>h \<in> set hs. Pipeline_ID (resolvePipeline (Pipelines app) (Hook_Pipeline h)) = 0"
  using assms
proof (induction hs arbitrary: s)
  case Nil
  then show ?case by simp
next
  case (Cons h hs)
  show ?case
  proof (cases "Pipeline_ID (resolvePipeline (Pipelines app) (Hook_Pipeline h)) = 0")
    case True
    then show ?thesis by simp
  next
    case False
    obtain e w where cr: "CreateHook c (rows s) (Project_Key proj) app
                            (resolvePipeline (Pipelines app) (Hook_Pipeline h)) = (e, w)"
      by (cases "CreateHook c (rows s) (Project_Key proj) app (resolvePipeline (Pipelines app) (Hook_Pipeline h))")
    show ?thesis
    proof (cases e)
      case None
      with False cr Cons.prems have "fst (manageHooks c proj app hs
               (send (NewMessage MsgHookCreated [RepositoryFullname app, Pipeline_Name (Hook_Pipeline h)])
                  (s\<lparr>rows := rows s @ w\<rparr>))) =
             Some (WrapError (Some (SdkError ErrPipelineNotFound))
                     ''importApplicationHandler> Pipeline not found for hook %s'')"
        by (simp add: Let_def resolvePipeline_name)
      from Cons.IH [OF this] show ?thesis by simp
    next
      case (Some err)
      with False cr Cons.prems show ?thesis by (simp add: Let_def resolvePipeline_name)
    qed
  qed
qed

lemma managePollers_stop_cause:
  assumes "fst (managePollers c proj app hs s) =
             Some (WrapError (Some (SdkError ErrPipelineNotFound))
                     ''importApplicationHandler> Pipeline %s not found'')"
  shows "\<exists>h \<in> set hs. Pipeline_ID (resolvePipeline (Pipelines app) (Poller_Pipeline h)) = 0"
  using assms
proof (induction hs arbitrary: s)
  case Nil
  then show ?case by simp
next
  case (Cons h hs)
  show ?case
  proof (cases "Pipeline_ID (resolvePipeline (Pipelines app) (Poller_Pipeline h)) = 0")
    case True
    then show ?thesis by simp
  next
    case False
    obtain e w where cr: "PollerInsert c (rows s) app
                            (resolvePipeline (Pipelines app) (Poller_Pipeline h)) = (e, w)"
      by (cases "PollerInsert c (rows s) app (resolvePipeline (Pipelines app) (Poller_Pipeline h))")
    show ?thesis
    proof (cases e)
      case None
      with False cr Cons.prems have "fst (managePollers c proj app hs
               (send (NewMessage MsgPollerCreated [RepositoryFullname app, Pipeline_Name (Poller_Pipeline h)])
                  (s\<lparr>rows := rows s @ w\<rparr>))) =
             Some (WrapError (Some (SdkError ErrPipelineNotFound))
                     ''importApplicationHandler> Pipeline %s not found'')"
        by (simp add: Let_def resolvePipeline_name)
      from Cons.IH [OF this] show ?thesis by simp
    next
      case (Some err)
      with False cr Cons.prems show ?thesis by (simp add: Let_def resolvePipeline_name)
    qed
  qed
qed

text \<open>
  C5, amended. The pipeline of a hook or poller is resolved by name against the pipeline
  usages of the descriptor (the first usage of that name; the hook's own pipeline when there
  is none), not against the project. A zero identifier after that is a hard stop with
  pipeline-not-found; a non-zero one goes on to the insert; and a pipeline-not-found stop of
  the loop always comes from a hook (poller) whose resolved identifier is zero.
\<close>

theorem hook_and_poller_resolution:
  "resolvePipeline (Pipelines app) hp =
     (case find (\<lambda>p. Pipeline_Name (Pipeline p) = Pipeline_Name hp) (Pipelines app) of
        None \<Rightarrow> hp | Some p \<Rightarrow> Pipeline p)
   \<and> (Pipeline_ID (resolvePipeline (Pipelines app) (Hook_Pipeline h)) = 0 \<longrightarrow>
        manageHooks c proj app (h # hs) s =
          (Some (WrapError (Some (SdkError ErrPipelineNotFound))
                   ''importApplicationHandler> Pipeline not found for hook %s''),
           send (NewMessage MsgAppImportPipelineNotFound [Pipeline_Name (Hook_Pipeline h)]) s))
   \<and> (Pipeline_ID (resolvePipeline (Pipelines app) (Hook_Pipeline h)) \<noteq> 0 \<longrightarrow>
        manageHooks c proj app (h # hs) s =
          (case CreateHook c (rows s) (Project_Key proj) app (resolvePipeline (Pipelines app) (Hook_Pipeline h)) of
             (Some err, w) \<Rightarrow>
               (Some (WrapError (Some err)
                        ''importApplicationHandler> Unable to insert hook on application %s/%s on pipeline %s''),
                s\<lparr>rows := rows s @ w\<rparr>)
           | (None, w) \<Rightarrow>
               manageHooks c proj app hs
                 (send (NewMessage MsgHookCreated [RepositoryFullname app, Pipeline_Name (Hook_Pipeline h)])
                    (s\<lparr>rows := rows s @ w\<rparr>))))
   \<and> (fst (manageHooks c proj app hs s) =
         Some (WrapError (Some (SdkError ErrPipelineNotFound))
                 ''importApplicationHandler> Pipeline not found for hook %s'') \<longrightarrow>
        (\<exists>h' \<in> set hs. Pipeline_ID (resolvePipeline (Pipelines app) (Hook_Pipeline h')) = 0))
   \<and> (Pipeline_ID (resolvePipeline (Pipelines app) (Poller_Pipeline q)) = 0 \<longrightarrow>
        managePollers c proj app (q # qs) s =
          (Some (WrapError (Some (SdkError ErrPipelineNotFound))
                   ''importApplicationHandler> Pipeline %s not found''),
           send (NewMessage MsgAppImportPipelineNotFound [Pipeline_Name (Poller_Pipeline q)]) s))
   \<and> (Pipeline_ID (resolvePipeline (Pipelines app) (Poller_Pipeline q)) \<noteq> 0 \<longrightarrow>
        managePollers c proj app (q # qs) s =
          (case PollerInsert c (rows s) app (resolvePipeline (Pipelines app) (Poller_Pipeline q)) of
             (Some err, w) \<Rightarrow>
               (Some (WrapError (Some err)
                        ''importApplicationHandler> Unable to insert poller on application %s/%s on pipeline %s''),
                s\<lparr>rows := rows s @ w\<rparr>)
           | (None, w) \<Rightarrow>
               managePollers c proj app qs
                 (send (NewMessage MsgPollerCreated [RepositoryFullname app, Pipeline_Name (Poller_Pipeline q)])
                    (s\<lparr>rows := rows s @ w\<rparr>))))
   \<and> (fst (managePollers c proj app qs s) =
         Some (WrapError (Some (SdkError ErrPipelineNotFound))
                 ''importApplicationHandler> Pipeline %s not found'') \<longrightarrow>
        (\<exists>q' \<in> set qs. Pipeline_ID (resolvePipeline (Pipelines app) (Poller_Pipeline q')) = 0))"
proof -
  have a: "resolvePipeline (Pipelines app) hp =
     (case find (\<lambda>p. Pipeline_Name (Pipeline p) = Pipeline_Name hp) (Pipelines app) of
        None \<Rightarrow> hp | Some p \<Rightarrow> Pipeline p)"
    by (rule resolvePipeline_find)
  have b: "Pipeline_ID (resolvePipeline (Pipelines app) (Hook_Pipeline h)) \<noteq> 0 \<longrightarrow>
        manageHooks c proj app (h # hs) s =
          (case CreateHook c (rows s) (Project_Key proj) app (resolvePipeline (Pipelines app) (Hook_Pipeline h)) of
             (Some err, w) \<Rightarrow>
               (Some (WrapError (Some err)
                        ''importApplicationHandler> Unable to insert hook on application %s/%s on pipeline %s''),
                s\<lparr>rows := rows s @ w\<rparr>)
           | (None, w) \<Rightarrow>
               manageHooks c proj app hs
                 (send (NewMessage MsgHookCreated [RepositoryFullname app, Pipeline_Name (Hook_Pipeline h)])
                    (s\<lparr>rows := rows s @ w\<rparr>)))"
    by (simp add: Let_def resolvePipeline_name split: prod.splits option.splits)
  have d: "Pipeline_ID (resolvePipeline (Pipelines app) (Poller_Pipeline q)) \<noteq> 0 \<longrightarrow>
        managePollers c proj app (q # qs) s =
          (case PollerInsert c (rows s) app (resolvePipeline (Pipelines app) (Poller_Pipeline q)) of
             (Some err, w) \<Rightarrow>
               (Some (WrapError (Some err)
                        ''importApplicationHandler> Unable to insert poller on application %s/%s on pipeline %s''),
                s\<lparr>rows := rows s @ w\<rparr>)
           | (None, w) \<Rightarrow>
               managePollers c proj app qs
                 (send (NewMessage MsgPollerCreated [RepositoryFullname app, Pipeline_Name (Poller_Pipeline q)])
                    (s\<lparr>rows := rows s @ w\<rparr>)))"
    by (simp add: Let_def resolvePipeline_name split: prod.splits option.splits)
  show ?thesis
    using a b d manageHooks_unresolved [of app h c proj hs s] managePollers_unresolved [of app q c proj qs s]
      manageHooks_stop_cause [of c proj app hs s] managePollers_stop_cause [of c proj app qs s]
    by blast
qed

theorem hook_and_poller_resolution_witness:
  "resolvePipeline (Pipelines loadedApp) (namedPipeline ''build'') = \<lparr>Pipeline_ID = 3, Pipeline_Name = ''build''\<rparr>
   \<and> manageHooks sampleCollab sampleProject loadedApp [\<lparr>Hook_Pipeline = namedPipeline ''deploy''\<rparr>] openState =
       (Some (WrapError (Some (SdkError ErrPipelineNotFound))
                ''importApplicationHandler> Pipeline not found for hook %s''),
        send (NewMessage MsgAppImportPipelineNotFound [''deploy'']) openState)
   \<and> manageHooks sampleCollab sampleProject loadedApp [\<lparr>Hook_Pipeline = namedPipeline ''build''\<rparr>] openState =
       (None, send (NewMessage MsgHookCreated [''org/app'', ''build''])
                (openState\<lparr>rows := sampleRows @ [HookRow ''app'' ''build'']\<rparr>))
   \<and> managePollers sampleCollab sampleProject loadedApp [\<lparr>Poller_Pipeline = namedPipeline ''deploy''\<rparr>] openState =
       (Some (WrapError (Some (SdkError ErrPipelineNotFound))
                ''importApplicationHandler> Pipeline %s not found''),
        send (NewMessage MsgAppImportPipelineNotFound [''deploy'']) openState)
   \<and> managePollers sampleCollab sampleProject loadedApp [\<lparr>Poller_Pipeline = namedPipeline ''build''\<rparr>] openState =
       (None, send (NewMessage MsgPollerCreated [''org/app'', ''build''])
                (openState\<lparr>rows := sampleRows @ [PollerRow ''app'' ''build'']\<rparr>))
   \<and> (\<exists>h' \<in> set [\<lparr>Hook_Pipeline = namedPipeline ''deploy''\<rparr>].
         Pipeline_ID (resolvePipeline (Pipelines loadedApp) (Hook_Pipeline h')) = 0)
   \<and> (\<exists>q' \<in> set [\<lparr>Poller_Pipeline = namedPipeline ''deploy''\<rparr>].
         Pipeline_ID (resolvePipeline (Pipelines loadedApp) (Poller_Pipeline q')) = 0)"
proof -
  let ?hd = "\<lparr>Hook_Pipeline = namedPipeline ''deploy''\<rparr>"
  let ?hb = "\<lparr>Hook_Pipeline = namedPipeline ''build''\<rparr>"
  let ?qd = "\<lparr>Poller_Pipeline = namedPipeline ''deploy''\<rparr>"
  let ?qb = "\<lparr>Poller_Pipeline = namedPipeline ''build''\<rparr>"
  have f: "find (\<lambda>p. Pipeline_Name (Pipeline p) = Pipeline_Name (namedPipeline ''build'')) (Pipelines loadedApp)
           = Some \<lparr>Pipeline = \<lparr>Pipeline_ID = 3, Pipeline_Name = ''build''\<rparr>, Triggers = []\<rparr>"
    by (simp add: loadedApp_def namedPipeline_def sampleApp_def)
  have uh: "Pipeline_ID (resolvePipeline (Pipelines loadedApp) (Hook_Pipeline ?hd)) = 0"
    and rh: "Pipeline_ID (resolvePipeline (Pipelines loadedApp) (Hook_Pipeline ?hb)) \<noteq> 0"
    and uq: "Pipeline_ID (resolvePipeline (Pipelines loadedApp) (Poller_Pipeline ?qd)) = 0"
    and rq: "Pipeline_ID (resolvePipeline (Pipelines loadedApp) (Poller_Pipeline ?qb)) \<noteq> 0"
    by (simp_all add: loadedApp_def namedPipeline_def sampleApp_def)
  have ch: "CreateHook sampleCollab sampleRows (Project_Key sampleProject) loadedApp
              (resolvePipeline (Pipelines loadedApp) (namedPipeline ''build''))
            = (None, [HookRow ''app'' ''build''])"
    by (simp add: sampleCollab_def loadedApp_def sampleApp_def namedPipeline_def)
  have pi: "PollerInsert sampleCollab sampleRows loadedApp
              (resolvePipeline (Pipelines loadedApp) (namedPipeline ''build''))
            = (None, [PollerRow ''app'' ''build''])"
    by (simp add: sampleCollab_def loadedApp_def sampleApp_def namedPipeline_def)
  have fn: "RepositoryFullname loadedApp = ''org/app''" "rows openState = sampleRows"
    by (simp_all add: loadedApp_def sampleApp_def openState_def)
  have nm: "Pipeline_Name (namedPipeline ''deploy'') = ''deploy''" "Pipeline_Name (namedPipeline ''build'') = ''build''"
    by (simp_all add: namedPipeline_def)
  note un = hook_and_poller_resolution
      [where app = loadedApp and hp = "namedPipeline ''build''" and c = sampleCollab and proj = sampleProject
         and s = openState and h = ?hd and hs = "[]" and q = ?qd and qs = "[]"]
  note re = hook_and_poller_resolution
      [where app = loadedApp and hp = "namedPipeline ''build''" and c = sampleCollab and proj = sampleProject
         and s = openState and h = ?hb and hs = "[]" and q = ?qb and qs = "[]"]
  from un have "resolvePipeline (Pipelines loadedApp) (namedPipeline ''build'') =
     (case find (\<lambda>p. Pipeline_Name (Pipeline p) = Pipeline_Name (namedPipeline ''build'')) (Pipelines loadedApp) of
        None \<Rightarrow> namedPipeline ''build'' | Some p \<Rightarrow> Pipeline p)"
    by blast
  then have 1: "resolvePipeline (Pipelines loadedApp) (namedPipeline ''build'') = \<lparr>Pipeline_ID = 3, Pipeline_Name = ''build''\<rparr>"
    unfolding f by simp
  from un uh have "manageHooks sampleCollab sampleProject loadedApp [?hd] openState =
       (Some (WrapError (Some (SdkError ErrPipelineNotFound))
                ''importApplicationHandler> Pipeline not found for hook %s''),
        send (NewMessage MsgAppImportPipelineNotFound [Pipeline_Name (Hook_Pipeline ?hd)]) openState)"
    by blast
  also have "\<dots> = (Some (WrapError (Some (SdkError ErrPipelineNotFound))
                ''importApplicationHandler> Pipeline not found for hook %s''),
        send (NewMessage MsgAppImportPipelineNotFound [''deploy'']) openState)"
    by (simp add: nm)
  finally have 2: "manageHooks sampleCollab sampleProject loadedApp [?hd] openState =
       (Some (WrapError (Some (SdkError ErrPipelineNotFound))
                ''importApplicationHandler> Pipeline not found for hook %s''),
        send (NewMessage MsgAppImportPipelineNotFound [''deploy'']) openState)" .
  from re rh have "manageHooks sampleCollab sampleProject loadedApp [?hb] openState =
          (case CreateHook sampleCollab (rows openState) (Project_Key sampleProject) loadedApp
                  (resolvePipeline (Pipelines loadedApp) (Hook_Pipeline ?hb)) of
             (Some err, w) \<Rightarrow>
               (Some (WrapError (Some err)
                        ''importApplicationHandler> Unable to insert hook on application %s/%s on pipeline %s''),
                openState\<lparr>rows := rows openState @ w\<rparr>)
           | (None, w) \<Rightarrow>
               manageHooks sampleCollab sampleProject loadedApp []
                 (send (NewMessage MsgHookCreated [RepositoryFullname loadedApp, Pipeline_Name (Hook_Pipeline ?hb)])
                    (openState\<lparr>rows := rows openState @ w\<rparr>)))"
    by blast
  also have "\<dots> = (None, send (NewMessage MsgHookCreated [''org/app'', ''build''])
                (openState\<lparr>rows := sampleRows @ [HookRow ''app'' ''build'']\<rparr>))"
    by (simp add: ch fn nm)
  finally have 3: "manageHooks sampleCollab sampleProject loadedApp [?hb] openState =
       (None, send (NewMessage MsgHookCreated [''org/app'', ''build''])
                (openState\<lparr>rows := sampleRows @ [HookRow ''app'' ''build'']\<rparr>))" .
  from un uq have "managePollers sampleCollab sampleProject loadedApp [?qd] openState =
       (Some (WrapError (Some (SdkError ErrPipelineNotFound))
                ''importApplicationHandler> Pipeline %s not found''),
        send (NewMessage MsgAppImportPipelineNotFound [Pipeline_Name (Poller_Pipeline ?qd)]) openState)"
    by blast
  also have "\<dots> = (Some (WrapError (Some (SdkError ErrPipelineNotFound))
                ''importApplicationHandler> Pipeline %s not found''),
        send (NewMessage MsgAppImportPipelineNotFound [''deploy'']) openState)"
    by (simp add: nm)
  finally have 4: "managePollers sampleCollab sampleProject loadedApp [?qd] openState =
       (Some (WrapError (Some (SdkError ErrPipelineNotFound))
                ''importApplicationHandler> Pipeline %s not found''),
        send (NewMessage MsgAppImportPipelineNotFound [''deploy'']) openState)" .
  from re rq have "managePollers sampleCollab sampleProject loadedApp [?qb] openState =
          (case PollerInsert sampleCollab (rows openState) loadedApp
                  (resolvePipeline (Pipelines loadedApp) (Poller_Pipeline ?qb)) of
             (Some err, w) \<Rightarrow>
               (Some (WrapError (Some err)
                        ''importApplicationHandler> Unable to insert poller on application %s/%s on pipeline %s''),
                openState\<lparr>rows := rows openState @ w\<rparr>)
           | (None, w) \<Rightarrow>
               managePollers sampleCollab sampleProject loadedApp []
                 (send (NewMessage MsgPollerCreated [RepositoryFullname loadedApp, Pipeline_Name (Poller_Pipeline ?qb)])
                    (openState\<lparr>rows := rows openState @ w\<rparr>)))"
    by blast
  also have "\<dots> = (None, send (NewMessage MsgPollerCreated [''org/app'', ''build''])
                (openState\<lparr>rows := sampleRows @ [PollerRow ''app'' ''build'']\<rparr>))"
    by (simp add: pi fn nm)
  finally have 5: "managePollers sampleCollab sampleProject loadedApp [?qb] openState =
       (None, send (NewMessage MsgPollerCreated [''org/app'', ''build''])
                (openState\<lparr>rows := sampleRows @ [PollerRow ''app'' ''build'']\<rparr>))" .
  note ca = hook_and_poller_resolution
      [where app = loadedApp and hp = "namedPipeline ''build''" and c = sampleCollab and proj = sampleProject
         and s = openState and h = ?hb and hs = "[?hd]" and q = ?qb and qs = "[?qd]"]
  have "fst (manageHooks sampleCollab sampleProject loadedApp [?hd] openState) =
          Some (WrapError (Some (SdkError ErrPipelineNotFound))
                  ''importApplicationHandler> Pipeline not found for hook %s'')"
    unfolding 2 by simp
  with ca have 6: "\<exists>h' \<in> set [?hd]. Pipeline_ID (resolvePipeline (Pipelines loadedApp) (Hook_Pipeline h')) = 0"
    by blast
  have "fst (managePollers sampleCollab sampleProject loadedApp [?qd] openState) =
          Some (WrapError (Some (SdkError ErrPipelineNotFound))
                  ''importApplicationHandler> Pipeline %s not found'')"
    unfolding 4 by simp
  with ca have 7: "\<exists>q' \<in> set [?qd]. Pipeline_ID (resolvePipeline (Pipelines loadedApp) (Poller_Pipeline q')) = 0"
    by blast
  from 1 2 3 4 5 6 7 show ?thesis by blast
qed

section \<open>Soft collection and hard stop\<close>

lemma manageHooks_append:
  "manageHooks c proj app (pre @ hs) s =
     (case manageHooks c proj app pre s of
        (Some out, s1) \<Rightarrow> (Some out, s1)
      | (None, s1) \<Rightarrow> manageHooks c proj app hs s1)"
proof (induction pre arbitrary: s)
  case Nil
  show ?case by simp
next
  case (Cons h pre)
  show ?case
    by (simp add: Let_def Cons.IH split: prod.splits option.splits)
qed

lemma list_all_noerr_iff:
  "list_all (\<lambda>r. \<not> isl (lookupRef c proj v r)) rs = (\<forall>r \<in> set rs. \<exists>b. lookupRef c proj v r = Inr b)"
  by (auto simp: list_all_iff isl_def) (metis sum.exhaust_sel)

text \<open>
  C6. Validation is soft: when the pipeline of a usage is missing (and no lookup fails with a
  store error), its diagnostic is collected and the triggers of that usage and all the later
  usages are still checked, their missing references being reported after it. The apply
  phase is hard: when the pipeline of a hook resolves to the zero identifier, the apply phase
  returns pipeline-not-found at once, in the state reached by the hooks before it plus the one
  diagnostic; no later hook, poller or notification is run.
\<close>

theorem soft_validation_and_hard_hook_stop:
  "(list_all (\<lambda>r. \<not> isl (lookupRef c proj (txView s) r)) (concat (map (usageRefs c app) (ps1 @ p # ps2)))
      \<and> missing c proj (txView s) (PipelineRef (Pipeline_Name (Pipeline p))) \<longrightarrow>
      checkPipelines c proj app (ps1 @ p # ps2) s =
        (None, noteMissing
                 (filter (missing c proj (txView s)) (concat (map (usageRefs c app) ps1))
                  @ PipelineRef (Pipeline_Name (Pipeline p))
                    # filter (missing c proj (txView s)) (concat (map (triggerRefs c app) (Triggers p)))
                  @ filter (missing c proj (txView s)) (concat (map (usageRefs c app) ps2))) s))
   \<and> (globalError s = None \<and> importCore c proj app exist s = (s1, app1) \<and> globalError s1 = None
      \<and> RepositoriesManager app1 \<noteq> None \<and> Hooks app1 = pre @ h # post
      \<and> manageHooks c proj app1 pre s1 = (None, s2)
      \<and> Pipeline_ID (resolvePipeline (Pipelines app1) (Hook_Pipeline h)) = 0 \<longrightarrow>
      applyPhase c proj app exist s =
        ((Some (WrapError (Some (SdkError ErrPipelineNotFound))
                  ''importApplicationHandler> Pipeline not found for hook %s''),
          send (NewMessage MsgAppImportPipelineNotFound [Pipeline_Name (Hook_Pipeline h)]) s2), app1))"
proof -
  have soft: "checkPipelines c proj app (ps1 @ p # ps2) s =
        (None, noteMissing
                 (filter (missing c proj (txView s)) (concat (map (usageRefs c app) ps1))
                  @ PipelineRef (Pipeline_Name (Pipeline p))
                    # filter (missing c proj (txView s)) (concat (map (triggerRefs c app) (Triggers p)))
                  @ filter (missing c proj (txView s)) (concat (map (usageRefs c app) ps2))) s)"
    if ne: "list_all (\<lambda>r. \<not> isl (lookupRef c proj (txView s) r)) (concat (map (usageRefs c app) (ps1 @ p # ps2)))"
      and mi: "missing c proj (txView s) (PipelineRef (Pipeline_Name (Pipeline p)))"
  proof -
    have "\<forall>r \<in> set (concat (map (usageRefs c app) (ps1 @ p # ps2))). \<exists>b. lookupRef c proj (txView s) r = Inr b"
      using ne by (simp only: list_all_noerr_iff)
    then have "checkPipelines c proj app (ps1 @ p # ps2) s =
           (None, noteMissing (filter (missing c proj (txView s)) (concat (map (usageRefs c app) (ps1 @ p # ps2)))) s)"
      by (rule checkPipelines_refs)
    moreover have "filter (missing c proj (txView s)) (concat (map (usageRefs c app) (ps1 @ p # ps2))) =
        filter (missing c proj (txView s)) (concat (map (usageRefs c app) ps1))
                  @ PipelineRef (Pipeline_Name (Pipeline p))
                    # filter (missing c proj (txView s)) (concat (map (triggerRefs c app) (Triggers p)))
                  @ filter (missing c proj (txView s)) (concat (map (usageRefs c app) ps2))"
      using mi by (simp add: usageRefs_def)
    ultimately show ?thesis by simp
  qed
  have hard: "applyPhase c proj app exist s =
        ((Some (WrapError (Some (SdkError ErrPipelineNotFound))
                  ''importApplicationHandler> Pipeline not found for hook %s''),
          send (NewMessage MsgAppImportPipelineNotFound [Pipeline_Name (Hook_Pipeline h)]) s2), app1)"
    if "globalError s = None" "importCore c proj app exist s = (s1, app1)" "globalError s1 = None"
      "RepositoriesManager app1 \<noteq> None" "Hooks app1 = pre @ h # post"
      "manageHooks c proj app1 pre s1 = (None, s2)"
      "Pipeline_ID (resolvePipeline (Pipelines app1) (Hook_Pipeline h)) = 0"
  proof -
    have "manageHooks c proj app1 (Hooks app1) s1 =
            (Some (WrapError (Some (SdkError ErrPipelineNotFound))
                  ''importApplicationHandler> Pipeline not found for hook %s''),
             send (NewMessage MsgAppImportPipelineNotFound [Pipeline_Name (Hook_Pipeline h)]) s2)"
      unfolding that(5) manageHooks_append that(6) using that(7) by (simp add: Let_def resolvePipeline_name)
    then have "manageRepository c proj app1 s1 =
            (Some (WrapError (Some (SdkError ErrPipelineNotFound))
                  ''importApplicationHandler> Pipeline not found for hook %s''),
             send (NewMessage MsgAppImportPipelineNotFound [Pipeline_Name (Hook_Pipeline h)]) s2)"
      using that(3,4) by (simp add: manageRepository_def)
    then show ?thesis
      using that(1,2) by (simp add: applyPhase_def)
  qed
  from soft hard show ?thesis by blast
qed

theorem soft_validation_and_hard_hook_stop_witness:
  "checkPipelines sampleCollab sampleProject brokenApp (Pipelines brokenApp) openState =
     (None, openState\<lparr>sent := [NewMessage MsgAppImportPipelineNotFound [''ghost''],
                               NewMessage MsgAppImportAppNotFound [''other''],
                               NewMessage MsgAppImportEnvNotFound [''staging''],
                               NewMessage MsgAppImportPipelineNotFound [''phantom'']],
                      globalError := Some (SdkError ErrPipelineNotFound)\<rparr>)
   \<and> applyPhase sampleCollab sampleProject twoHooksApp False openState =
       ((Some (WrapError (Some (SdkError ErrPipelineNotFound))
                 ''importApplicationHandler> Pipeline not found for hook %s''),
         \<lparr>sent = [NewMessage (MsgOther 0) [''app''],
                  NewMessage MsgHookCreated [''org/app'', ''build''],
                  NewMessage MsgAppImportPipelineNotFound [''ghost'']],
          globalError = None,
          rows = sampleRows @ [HookRow ''app'' ''build''],
          pending = [ApplicationRow ''app''],
          txlog = [TxBegin]\<rparr>),
        twoHooksApp\<lparr>App_ID := 7,
                    Pipelines := [\<lparr>Pipeline = \<lparr>Pipeline_ID = 3, Pipeline_Name = ''build''\<rparr>, Triggers = []\<rparr>]\<rparr>)"
proof -
  let ?p = "\<lparr>Pipeline = namedPipeline ''ghost'',
         Triggers = [\<lparr>SrcEnvironment = namedEnvironment ''NoEnv'',
                      DestApplication_Name = ''other'',
                      DestEnvironment = namedEnvironment ''staging''\<rparr>]\<rparr>"
  let ?ps2 = "[\<lparr>Pipeline = namedPipeline ''build'', Triggers = []\<rparr>,
        \<lparr>Pipeline = namedPipeline ''phantom'', Triggers = []\<rparr>]"
  let ?s1 = "\<lparr>sent = [NewMessage (MsgOther 0) [''app'']], globalError = None, rows = sampleRows,
              pending = [ApplicationRow ''app''], txlog = [TxBegin]\<rparr>"
  let ?app1 = "twoHooksApp\<lparr>App_ID := 7,
                    Pipelines := [\<lparr>Pipeline = \<lparr>Pipeline_ID = 3, Pipeline_Name = ''build''\<rparr>, Triggers = []\<rparr>]\<rparr>"
  let ?s2 = "\<lparr>sent = [NewMessage (MsgOther 0) [''app''], NewMessage MsgHookCreated [''org/app'', ''build'']],
              globalError = None, rows = sampleRows @ [HookRow ''app'' ''build''],
              pending = [ApplicationRow ''app''], txlog = [TxBegin]\<rparr>"
  let ?hb = "\<lparr>Hook_Pipeline = namedPipeline ''build''\<rparr>"
  let ?hg = "\<lparr>Hook_Pipeline = namedPipeline ''ghost''\<rparr>"
  note t = soft_validation_and_hard_hook_stop
      [where c = sampleCollab and proj = sampleProject and app = brokenApp and ?ps1.0 = "[]" and p = ?p
         and ?ps2.0 = ?ps2 and s = openState]
  note u = soft_validation_and_hard_hook_stop
      [where c = sampleCollab and proj = sampleProject and app = twoHooksApp and exist = False
         and s = openState and ?s1.0 = ?s1 and ?app1.0 = ?app1 and pre = "[?hb]" and h = ?hg and post = "[]"
         and ?s2.0 = ?s2]
  have ps: "Pipelines brokenApp = [] @ ?p # ?ps2"
    by (simp add: brokenApp_def)
  have a1: "list_all (\<lambda>r. \<not> isl (lookupRef sampleCollab sampleProject (txView openState) r))
              (concat (map (usageRefs sampleCollab brokenApp) ([] @ ?p # ?ps2)))"
    by code_simp
  have a2: "missing sampleCollab sampleProject (txView openState) (PipelineRef (Pipeline_Name (Pipeline ?p)))"
    by code_simp
  from t a1 a2 have "checkPipelines sampleCollab sampleProject brokenApp ([] @ ?p # ?ps2) openState =
        (None, noteMissing
                 (filter (missing sampleCollab sampleProject (txView openState)) (concat (map (usageRefs sampleCollab brokenApp) []))
                  @ PipelineRef (Pipeline_Name (Pipeline ?p))
                    # filter (missing sampleCollab sampleProject (txView openState)) (concat (map (triggerRefs sampleCollab brokenApp) (Triggers ?p)))
                  @ filter (missing sampleCollab sampleProject (txView openState)) (concat (map (usageRefs sampleCollab brokenApp) ?ps2))) openState)"
    by blast
  also have "\<dots> = (None, openState\<lparr>sent := [NewMessage MsgAppImportPipelineNotFound [''ghost''],
                               NewMessage MsgAppImportAppNotFound [''other''],
                               NewMessage MsgAppImportEnvNotFound [''staging''],
                               NewMessage MsgAppImportPipelineNotFound [''phantom'']],
                      globalError := Some (SdkError ErrPipelineNotFound)\<rparr>)"
    by code_simp
  finally have 1: "checkPipelines sampleCollab sampleProject brokenApp (Pipelines brokenApp) openState =
     (None, openState\<lparr>sent := [NewMessage MsgAppImportPipelineNotFound [''ghost''],
                               NewMessage MsgAppImportAppNotFound [''other''],
                               NewMessage MsgAppImportEnvNotFound [''staging''],
                               NewMessage MsgAppImportPipelineNotFound [''phantom'']],
                      globalError := Some (SdkError ErrPipelineNotFound)\<rparr>)"
    unfolding ps .
  have b1: "globalError openState = None" by (simp add: openState_def)
  have b2: "importCore sampleCollab sampleProject twoHooksApp False openState = (?s1, ?app1)"
    by code_simp
  have b3: "globalError ?s1 = None" by simp
  have b4: "RepositoriesManager ?app1 \<noteq> None" by (simp add: twoHooksApp_def sampleApp_def)
  have b5: "Hooks ?app1 = [?hb] @ ?hg # []" by (simp add: twoHooksApp_def)
  have b6: "manageHooks sampleCollab sampleProject ?app1 [?hb] ?s1 = (None, ?s2)"
    by code_simp
  have b7: "Pipeline_ID (resolvePipeline (Pipelines ?app1) (Hook_Pipeline ?hg)) = 0"
    by (simp add: namedPipeline_def)
  from u b1 b2 b3 b4 b5 b6 b7 have "applyPhase sampleCollab sampleProject twoHooksApp False openState =
        ((Some (WrapError (Some (SdkError ErrPipelineNotFound))
                  ''importApplicationHandler> Pipeline not found for hook %s''),
          send (NewMessage MsgAppImportPipelineNotFound [Pipeline_Name (Hook_Pipeline ?hg)]) ?s2), ?app1)"
    by blast
  also have "\<dots> = ((Some (WrapError (Some (SdkError ErrPipelineNotFound))
                 ''importApplicationHandler> Pipeline not found for hook %s''),
         \<lparr>sent = [NewMessage (MsgOther 0) [''app''],
                  NewMessage MsgHookCreated [''org/app'', ''build''],
                  NewMessage MsgAppImportPipelineNotFound [''ghost'']],
          globalError = None,
          rows = sampleRows @ [HookRow ''app'' ''build''],
          pending = [ApplicationRow ''app''],
          txlog = [TxBegin]\<rparr>), ?app1)"
    by (simp add: send_def namedPipeline_def)
  finally have 2: "applyPhase sampleCollab sampleProject twoHooksApp False openState =
       ((Some (WrapError (Some (SdkError ErrPipelineNotFound))
                 ''importApplicationHandler> Pipeline not found for hook %s''),
         \<lparr>sent = [NewMessage (MsgOther 0) [''app''],
                  NewMessage MsgHookCreated [''org/app'', ''build''],
                  NewMessage MsgAppImportPipelineNotFound [''ghost'']],
          globalError = None,
          rows = sampleRows @ [HookRow ''app'' ''build''],
          pending = [ApplicationRow ''app''],
          txlog = [TxBegin]\<rparr>), ?app1)" .
  from 1 2 show ?thesis by blast
qed

section \<open>Notifications\<close>

lemma findPipelineID_spec: "findPipelineID ps n = specPipelineID ps n"
  by (induction ps) (auto simp: specPipelineID_def)

lemma findEnvironmentID_find:
  "findEnvironmentID es n = (case find (\<lambda>e. Environment_Name e = n) es of None \<Rightarrow> 0 | Some e \<Rightarrow> Environment_ID e)"
  by (induction es) auto

lemma manageNotifications_quiet:
  "sent (snd (manageNotifications c proj app ns s)) = sent s
   \<and> rows (snd (manageNotifications c proj app ns s)) = rows s"
proof (induction ns arbitrary: s)
  case Nil
  show ?case by simp
next
  case (Cons notif ns)
  show ?case
    by (simp add: Let_def Cons.IH split: prod.splits option.splits)
qed

text \<open>
  C8. For a notification setting, with the pipeline identifier looked up by name among the
  descriptor's pipelines and the environment identifier taken from the default environment
  (empty or default name) or looked up among the project's environments: an unresolved
  pipeline is a hard stop with pipeline-not-found, else an unresolved environment is a hard
  stop with the environment error, else the notification is written through the transaction;
  and the loop over the notifications sends no diagnostic and writes nothing outside the
  transaction.
\<close>

theorem notification_resolution:
  "(specPipelineID (Pipelines app) (Pipeline_Name (Notif_Pipeline notif)) = 0 \<longrightarrow>
      manageNotifications c proj app (notif # ns) s =
        (Some (WrapError (Some (SdkError ErrPipelineNotFound))
                 ''importApplicationHandler> Pipeline %s not found for notification %+v''), s))
   \<and> (specPipelineID (Pipelines app) (Pipeline_Name (Notif_Pipeline notif)) \<noteq> 0
       \<and> specEnvironmentID c proj (Environment_Name (Notif_Environment notif)) = 0 \<longrightarrow>
      manageNotifications c proj app (notif # ns) s =
        (Some (WrapError (Some (SdkError ErrNoEnvironment))
                 ''importApplicationHandler> Environment %s not found for notification %+v''), s))
   \<and> (specPipelineID (Pipelines app) (Pipeline_Name (Notif_Pipeline notif)) \<noteq> 0
       \<and> specEnvironmentID c proj (Environment_Name (Notif_Environment notif)) \<noteq> 0 \<longrightarrow>
      manageNotifications c proj app (notif # ns) s =
        (case InsertOrUpdateUserNotificationSettings c (txView s) (App_ID app)
                (specPipelineID (Pipelines app) (Pipeline_Name (Notif_Pipeline notif)))
                (specEnvironmentID c proj (Environment_Name (Notif_Environment notif)))
                (specNotification c notif) of
           (Some err, w) \<Rightarrow>
             (Some (WrapError (Some err)
                      ''importApplicationHandler> Unable to insert notification on application %s/%s on pipeline %s''),
              s\<lparr>pending := pending s @ w\<rparr>)
         | (None, w) \<Rightarrow> manageNotifications c proj app ns (s\<lparr>pending := pending s @ w\<rparr>)))
   \<and> sent (snd (manageNotifications c proj app ns s)) = sent s
   \<and> rows (snd (manageNotifications c proj app ns s)) = rows s"
proof -
  have env: "(if Environment_Name (Notif_Environment notif) = []
                 \<or> Environment_Name (Notif_Environment notif) = Environment_Name (DefaultEnv c)
              then Environment_ID (DefaultEnv c)
              else findEnvironmentID (Environments proj) (Environment_Name (Notif_Environment notif)))
             = specEnvironmentID c proj (Environment_Name (Notif_Environment notif))"
    by (simp add: specEnvironmentID_def findEnvironmentID_find)
  have step: "manageNotifications c proj app (notif # ns) s =
     (if specPipelineID (Pipelines app) (Pipeline_Name (Notif_Pipeline notif)) = 0 then
        (Some (WrapError (Some (SdkError ErrPipelineNotFound))
                 ''importApplicationHandler> Pipeline %s not found for notification %+v''), s)
      else if specEnvironmentID c proj (Environment_Name (Notif_Environment notif)) = 0 then
        (Some (WrapError (Some (SdkError ErrNoEnvironment))
                 ''importApplicationHandler> Environment %s not found for notification %+v''), s)
      else
        (case InsertOrUpdateUserNotificationSettings c (txView s) (App_ID app)
                (specPipelineID (Pipelines app) (Pipeline_Name (Notif_Pipeline notif)))
                (specEnvironmentID c proj (Environment_Name (Notif_Environment notif)))
                (specNotification c notif) of
           (Some err, w) \<Rightarrow>
             (Some (WrapError (Some err)
                      ''importApplicationHandler> Unable to insert notification on application %s/%s on pipeline %s''),
              s\<lparr>pending := pending s @ w\<rparr>)
         | (None, w) \<Rightarrow> manageNotifications c proj app ns (s\<lparr>pending := pending s @ w\<rparr>)))"
    unfolding manageNotifications.simps Let_def env findPipelineID_spec specNotification_def
    by (rule refl)
  show ?thesis
    using step manageNotifications_quiet [of c proj app ns s] by simp
qed

theorem notification_resolution_witness:
  "manageNotifications sampleCollab sampleProject loadedApp [namedNotification ''ghost'' ''prod''] openState =
     (Some (WrapError (Some (SdkError ErrPipelineNotFound))
              ''importApplicationHandler> Pipeline %s not found for notification %+v''), openState)
   \<and> manageNotifications sampleCollab sampleProject loadedApp [namedNotification ''build'' ''staging''] openState =
     (Some (WrapError (Some (SdkError ErrNoEnvironment))
              ''importApplicationHandler> Environment %s not found for notification %+v''), openState)
   \<and> manageNotifications sampleCollab sampleProject loadedApp [namedNotification ''build'' ''prod''] openState =
     (None, openState\<lparr>pending := [NotificationRow 7 3 5]\<rparr>)
   \<and> manageNotifications sampleCollab sampleProject loadedApp [namedNotification ''build'' []] openState =
     (None, openState\<lparr>pending := [NotificationRow 7 3 1]\<rparr>)
   \<and> sent (snd (manageNotifications sampleCollab sampleProject loadedApp
                  [namedNotification ''build'' ''prod'', namedNotification ''build'' ''NoEnv''] openState)) = []"
proof -
  let ?g = "namedNotification ''ghost'' ''prod''"
  let ?e = "namedNotification ''build'' ''staging''"
  let ?p = "namedNotification ''build'' ''prod''"
  let ?d = "namedNotification ''build'' []"
  note tg = notification_resolution [where c = sampleCollab and proj = sampleProject and app = loadedApp
      and s = openState and notif = ?g and ns = "[]"]
  note te = notification_resolution [where c = sampleCollab and proj = sampleProject and app = loadedApp
      and s = openState and notif = ?e and ns = "[]"]
  note tp = notification_resolution [where c = sampleCollab and proj = sampleProject and app = loadedApp
      and s = openState and notif = ?p and ns = "[]"]
  note td = notification_resolution [where c = sampleCollab and proj = sampleProject and app = loadedApp
      and s = openState and notif = ?d and ns = "[]"]
  note tq = notification_resolution [where c = sampleCollab and proj = sampleProject and app = loadedApp
      and s = openState and notif = ?p and ns = "[?p, namedNotification ''build'' ''NoEnv'']"]
  have g: "specPipelineID (Pipelines loadedApp) (Pipeline_Name (Notif_Pipeline ?g)) = 0"
    by code_simp
  have e: "specPipelineID (Pipelines loadedApp) (Pipeline_Name (Notif_Pipeline ?e)) \<noteq> 0
           \<and> specEnvironmentID sampleCollab sampleProject (Environment_Name (Notif_Environment ?e)) = 0"
    by code_simp
  have p: "specPipelineID (Pipelines loadedApp) (Pipeline_Name (Notif_Pipeline ?p)) \<noteq> 0
           \<and> specEnvironmentID sampleCollab sampleProject (Environment_Name (Notif_Environment ?p)) \<noteq> 0"
    by code_simp
  have d: "specPipelineID (Pipelines loadedApp) (Pipeline_Name (Notif_Pipeline ?d)) \<noteq> 0
           \<and> specEnvironmentID sampleCollab sampleProject (Environment_Name (Notif_Environment ?d)) \<noteq> 0"
    by code_simp
  from tg g have 1: "manageNotifications sampleCollab sampleProject loadedApp [?g] openState =
     (Some (WrapError (Some (SdkError ErrPipelineNotFound))
              ''importApplicationHandler> Pipeline %s not found for notification %+v''), openState)"
    by blast
  from te e have 2: "manageNotifications sampleCollab sampleProject loadedApp [?e] openState =
     (Some (WrapError (Some (SdkError ErrNoEnvironment))
              ''importApplicationHandler> Environment %s not found for notification %+v''), openState)"
    by blast
  from tp p have "manageNotifications sampleCollab sampleProject loadedApp [?p] openState =
        (case InsertOrUpdateUserNotificationSettings sampleCollab (txView openState) (App_ID loadedApp)
                (specPipelineID (Pipelines loadedApp) (Pipeline_Name (Notif_Pipeline ?p)))
                (specEnvironmentID sampleCollab sampleProject (Environment_Name (Notif_Environment ?p)))
                (specNotification sampleCollab ?p) of
           (Some err, w) \<Rightarrow>
             (Some (WrapError (Some err)
                      ''importApplicationHandler> Unable to insert notification on application %s/%s on pipeline %s''),
              openState\<lparr>pending := pending openState @ w\<rparr>)
         | (None, w) \<Rightarrow> manageNotifications sampleCollab sampleProject loadedApp [] (openState\<lparr>pending := pending openState @ w\<rparr>))"
    by blast
  also have "\<dots> = (None, openState\<lparr>pending := [NotificationRow 7 3 5]\<rparr>)"
    by code_simp
  finally have 3: "manageNotifications sampleCollab sampleProject loadedApp [?p] openState =
     (None, openState\<lparr>pending := [NotificationRow 7 3 5]\<rparr>)" .
  from td d have "manageNotifications sampleCollab sampleProject loadedApp [?d] openState =
        (case InsertOrUpdateUserNotificationSettings sampleCollab (txView openState) (App_ID loadedApp)
                (specPipelineID (Pipelines loadedApp) (Pipeline_Name (Notif_Pipeline ?d)))
                (specEnvironmentID sampleCollab sampleProject (Environment_Name (Notif_Environment ?d)))
                (specNotification sampleCollab ?d) of
           (Some err, w) \<Rightarrow>
             (Some (WrapError (Some err)
                      ''importApplicationHandler> Unable to insert notification on application %s/%s on pipeline %s''),
              openState\<lparr>pending := pending openState @ w\<rparr>)
         | (None, w) \<Rightarrow> manageNotifications sampleCollab sampleProject loadedApp [] (openState\<lparr>pending := pending openState @ w\<rparr>))"
    by blast
  also have "\<dots> = (None, openState\<lparr>pending := [NotificationRow 7 3 1]\<rparr>)"
    by code_simp
  finally have 4: "manageNotifications sampleCollab sampleProject loadedApp [?d] openState =
     (None, openState\<lparr>pending := [NotificationRow 7 3 1]\<rparr>)" .
  from tq have "sent (snd (manageNotifications sampleCollab sampleProject loadedApp
                  [?p, namedNotification ''build'' ''NoEnv''] openState)) = sent openState"
    by blast
  then have 5: "sent (snd (manageNotifications sampleCollab sampleProject loadedApp
                  [?p, namedNotification ''build'' ''NoEnv''] openState)) = []"
    by (simp add: openState_def)
  from 1 2 3 4 5 show ?thesis by blast
qed

section \<open>What the response carries\<close>

lemma checkDestApplication_stop:
  "checkDestApplication c proj app t s = (Some out, s') \<Longrightarrow> \<exists>e f. out = WrapError e f"
  by (auto simp: checkDestApplication_def split: if_splits sum.splits)

lemma checkEnvironment_stop:
  "checkEnvironment c proj e s = (Some out, s') \<Longrightarrow> \<exists>e f. out = WrapError e f"
  by (auto simp: checkEnvironment_def split: if_splits sum.splits)

lemma checkTriggers_stop:
  "checkTriggers c proj app ts s = (Some out, s') \<Longrightarrow> \<exists>e f. out = WrapError e f"
proof (induction ts arbitrary: s)
  case Nil
  then show ?case by simp
next
  case (Cons t ts)
  then show ?case
    by (auto split: prod.splits option.splits
             dest: checkDestApplication_stop checkEnvironment_stop)
qed

lemma checkPipelines_stop:
  "checkPipelines c proj app ps s = (Some out, s') \<Longrightarrow> \<exists>e f. out = WrapError e f"
proof (induction ps arbitrary: s)
  case Nil
  then show ?case by simp
next
  case (Cons p ps)
  then show ?case
    by (auto simp: Let_def split: prod.splits option.splits sum.splits if_splits
             dest: checkTriggers_stop)
qed

lemma manageHooks_stop:
  "manageHooks c proj app hs s = (Some out, s') \<Longrightarrow> \<exists>e f. out = WrapError e f"
proof (induction hs arbitrary: s)
  case Nil
  then show ?case by simp
next
  case (Cons h hs)
  then show ?case
    by (auto simp: Let_def split: prod.splits option.splits if_splits)
qed

lemma managePollers_stop:
  "managePollers c proj app hs s = (Some out, s') \<Longrightarrow> \<exists>e f. out = WrapError e f"
proof (induction hs arbitrary: s)
  case Nil
  then show ?case by simp
next
  case (Cons h hs)
  then show ?case
    by (auto simp: Let_def split: prod.splits option.splits if_splits)
qed

lemma manageNotifications_stop:
  "manageNotifications c proj app ns s = (Some out, s') \<Longrightarrow> \<exists>e f. out = WrapError e f"
proof (induction ns arbitrary: s)
  case Nil
  then show ?case by simp
next
  case (Cons n ns)
  then show ?case
    by (auto simp: Let_def split: prod.splits option.splits if_splits)
qed

lemma manageRepository_stop:
  "manageRepository c proj app s = (Some out, s') \<Longrightarrow> \<exists>e f. out = WrapError e f"
  by (auto simp: manageRepository_def split: if_splits prod.splits option.splits
           dest: manageHooks_stop managePollers_stop)

lemma applyPhase_stop:
  "applyPhase c proj app exist s = ((Some out, s'), app') \<Longrightarrow> \<exists>e f. out = WrapError e f"
  by (auto simp: applyPhase_def split: if_splits prod.splits option.splits
           dest: manageRepository_stop manageNotifications_stop)

lemma finish_WriteJSON:
  "finish c proj app al s = (WriteJSON l st, s') \<Longrightarrow>
     l = msgListString c al (sent s @ [zeroMessage]) \<and> sent s' = sent s"
  by (auto simp: finish_def consumer_eq Let_def split: option.splits error.splits prod.splits)

lemma body_WriteJSON:
  assumes "body c proj app exist forceUpdate al s = (WriteJSON l st, s')"
  shows "l = msgListString c al (sent s' @ [zeroMessage])"
proof -
  from assms have ne: "\<not> (exist \<and> \<not> forceUpdate)"
    by (auto simp: body_def split: if_splits)
  obtain o1 s1 where v: "checkPipelines c proj app (Pipelines app) s = (o1, s1)"
    by (cases "checkPipelines c proj app (Pipelines app) s")
  show ?thesis
  proof (cases o1)
    case (Some out)
    with assms ne v have "out = WriteJSON l st" by (auto simp: body_def)
    with checkPipelines_stop [of c proj app "Pipelines app" s out s1] v Some show ?thesis by auto
  next
    case None
    obtain o2 s2 app2 where a: "applyPhase c proj app exist s1 = ((o2, s2), app2)"
      by (cases "applyPhase c proj app exist s1") auto
    show ?thesis
    proof (cases o2)
      case (Some out)
      with assms ne v None a have "out = WriteJSON l st" by (auto simp: body_def)
      with applyPhase_stop [of c proj app exist s1 out s2 app2] a Some show ?thesis by auto
    next
      case N2: None
      with assms ne v None a have "finish c proj app2 al s2 = (WriteJSON l st, s')"
        by (auto simp: body_def)
      from finish_WriteJSON [OF this] show ?thesis by simp
    qed
  qed
qed

lemma handler_WriteJSON:
  assumes "importApplicationHandler c proj payload forceUpdate al db = (WriteJSON l st, s)"
  shows "l = msgListString c al (sent s @ [zeroMessage])"
proof -
  from assms obtain exist app0 gs s' where
    b: "body c proj (app0\<lparr>ApplicationGroups := gs\<rparr>) exist forceUpdate al
          \<lparr>sent = [], globalError = None, rows = db, pending = [], txlog = [TxBegin]\<rparr> = (WriteJSON l st, s')"
    and s: "s = Rollback s'"
    by (auto simp: importApplicationHandler_def Let_def split: sum.splits option.splits prod.splits)
  from body_WriteJSON [OF b] s show ?thesis by (simp add: Rollback_def)
qed

lemma checkDestApplication_globalError:
  "checkDestApplication c proj app t s = (None, s') \<Longrightarrow>
     globalError s' = globalError s \<or> (\<exists>e. globalError s' = Some (SdkError e))"
  by (auto simp: checkDestApplication_def send_def split: if_splits sum.splits)

lemma checkEnvironment_globalError:
  "checkEnvironment c proj e s = (None, s') \<Longrightarrow>
     globalError s' = globalError s \<or> (\<exists>e. globalError s' = Some (SdkError e))"
  by (auto simp: checkEnvironment_def send_def split: if_splits sum.splits)

lemma checkTriggers_globalError:
  "checkTriggers c proj app ts s = (None, s') \<Longrightarrow>
     globalError s' = globalError s \<or> (\<exists>e. globalError s' = Some (SdkError e))"
proof (induction ts arbitrary: s)
  case Nil
  then show ?case by simp
next
  case (Cons t ts)
  from Cons.prems obtain s1 s2 s3 where
    1: "checkDestApplication c proj app t s = (None, s1)"
    and 2: "checkEnvironment c proj (SrcEnvironment t) s1 = (None, s2)"
    and 3: "checkEnvironment c proj (DestEnvironment t) s2 = (None, s3)"
    and 4: "checkTriggers c proj app ts s3 = (None, s')"
    by (auto split: prod.splits option.splits)
  from checkDestApplication_globalError [OF 1] checkEnvironment_globalError [OF 2]
    checkEnvironment_globalError [OF 3] Cons.IH [OF 4]
  show ?case by auto
qed

lemma checkPipelines_globalError:
  "checkPipelines c proj app ps s = (None, s') \<Longrightarrow>
     globalError s' = globalError s \<or> (\<exists>e. globalError s' = Some (SdkError e))"
proof (induction ps arbitrary: s)
  case Nil
  then show ?case by simp
next
  case (Cons p ps)
  from Cons.prems obtain ok s2 where
    1: "ExistPipeline c (txView s) (Project_ID proj) (Pipeline_Name (Pipeline p)) = Inr ok"
    and 2: "checkTriggers c proj app (Triggers p)
              (if \<not> ok then (send (NewMessage MsgAppImportPipelineNotFound [Pipeline_Name (Pipeline p)]) s)
                            \<lparr>globalError := Some (SdkError ErrPipelineNotFound)\<rparr> else s) = (None, s2)"
    and 3: "checkPipelines c proj app ps s2 = (None, s')"
    by (auto simp: Let_def split: prod.splits option.splits sum.splits)
  from checkTriggers_globalError [OF 2] Cons.IH [OF 3]
  show ?case by (auto simp: send_def split: if_splits)
qed

lemma body_finishes:
  assumes "\<not> (exist \<and> \<not> forceUpdate)"
    and "checkPipelines c proj app (Pipelines app) s = (None, s1)"
    and "applyPhase c proj app exist s1 = ((None, s2), app2)"
  shows "body c proj app exist forceUpdate al s = finish c proj app2 al s2"
  using assms by (auto simp: body_def)

lemma finish_succeeds:
  assumes "globalError s = None"
    and "UpdateLastModified c (txView s) proj = (None, w)"
    and "Commit c (pending s @ w) = None"
    and "LoadAll c (rows s @ pending s @ w) (Project_Key proj) = None"
    and "CheckApplication c (rows s @ pending s @ w) proj app = (None, w2)"
  shows "finish c proj app al s =
           (WriteJSON (msgListString c al (sent s @ [zeroMessage])) 200,
            s\<lparr>rows := rows s @ pending s @ w @ w2, pending := [], txlog := txlog s @ [TxCommit]\<rparr>)"
  using assms by (simp add: finish_def consumer_eq Let_def)

text \<open>
  C2, amended. Whenever the handler answers with a list, that list is the full accumulated
  list, rendered and deduplicated (all the messages sent, followed by the zero-value message
  of the closed channel). It does so when validation rejects the import (with the status of
  the error found), when \<open>application.Import\<close> fails with a structured error (with its
  status), and on success (status 200, after the update of the project, the commit, the
  reload and the sanity check).
\<close>

theorem response_carries_diagnostics:
  "(importApplicationHandler c proj payload forceUpdate al db = (WriteJSON l st, s) \<longrightarrow>
      l = msgListString c al (sent s @ [zeroMessage]))
   \<and> (Exists c db (Project_ID proj) (Payload_Name payload) = Inr exist
       \<and> Payload_Application payload = Inr app0
       \<and> loadGroups c db (ApplicationGroups app0) = Inr gs
       \<and> Begin c db = None
       \<and> \<not> (exist \<and> \<not> forceUpdate)
       \<and> checkPipelines c proj (app0\<lparr>ApplicationGroups := gs\<rparr>) (Pipelines app0)
            \<lparr>sent = [], globalError = None, rows = db, pending = [], txlog = [TxBegin]\<rparr> = (None, s1) \<longrightarrow>
       (globalError s1 \<noteq> None \<longrightarrow>
          (\<exists>e. globalError s1 = Some (SdkError e)
              \<and> importApplicationHandler c proj payload forceUpdate al db =
                  (WriteJSON (msgListString c al (sent s1 @ [zeroMessage])) (Status c e), Rollback s1)))
       \<and> (globalError s1 = None
           \<and> applyPhase c proj (app0\<lparr>ApplicationGroups := gs\<rparr>) exist s1 = ((None, s2), app2) \<longrightarrow>
          (\<forall>e. globalError s2 = Some (SdkError e) \<longrightarrow>
             importApplicationHandler c proj payload forceUpdate al db =
               (WriteJSON (msgListString c al (sent s2 @ [zeroMessage])) (Status c e), Rollback s2))
          \<and> (globalError s2 = None
              \<and> UpdateLastModified c (txView s2) proj = (None, w)
              \<and> Commit c (pending s2 @ w) = None
              \<and> LoadAll c (rows s2 @ pending s2 @ w) (Project_Key proj) = None
              \<and> CheckApplication c (rows s2 @ pending s2 @ w) proj app2 = (None, w2) \<longrightarrow>
             importApplicationHandler c proj payload forceUpdate al db =
               (WriteJSON (msgListString c al (sent s2 @ [zeroMessage])) 200,
                Rollback (s2\<lparr>rows := rows s2 @ pending s2 @ w @ w2, pending := [],
                              txlog := txlog s2 @ [TxCommit]\<rparr>)))))"
proof -
  let ?app = "app0\<lparr>ApplicationGroups := gs\<rparr>"
  let ?s0 = "\<lparr>sent = [], globalError = None, rows = db, pending = [], txlog = [TxBegin]\<rparr>"
  have any: "importApplicationHandler c proj payload forceUpdate al db = (WriteJSON l st, s) \<longrightarrow>
      l = msgListString c al (sent s @ [zeroMessage])"
    using handler_WriteJSON by blast
  have rest: "(globalError s1 \<noteq> None \<longrightarrow>
          (\<exists>e. globalError s1 = Some (SdkError e)
              \<and> importApplicationHandler c proj payload forceUpdate al db =
                  (WriteJSON (msgListString c al (sent s1 @ [zeroMessage])) (Status c e), Rollback s1)))
       \<and> (globalError s1 = None
           \<and> applyPhase c proj ?app exist s1 = ((None, s2), app2) \<longrightarrow>
          (\<forall>e. globalError s2 = Some (SdkError e) \<longrightarrow>
             importApplicationHandler c proj payload forceUpdate al db =
               (WriteJSON (msgListString c al (sent s2 @ [zeroMessage])) (Status c e), Rollback s2))
          \<and> (globalError s2 = None
              \<and> UpdateLastModified c (txView s2) proj = (None, w)
              \<and> Commit c (pending s2 @ w) = None
              \<and> LoadAll c (rows s2 @ pending s2 @ w) (Project_Key proj) = None
              \<and> CheckApplication c (rows s2 @ pending s2 @ w) proj app2 = (None, w2) \<longrightarrow>
             importApplicationHandler c proj payload forceUpdate al db =
               (WriteJSON (msgListString c al (sent s2 @ [zeroMessage])) 200,
                Rollback (s2\<lparr>rows := rows s2 @ pending s2 @ w @ w2, pending := [],
                              txlog := txlog s2 @ [TxCommit]\<rparr>))))"
    if pre: "Exists c db (Project_ID proj) (Payload_Name payload) = Inr exist"
        "Payload_Application payload = Inr app0"
        "loadGroups c db (ApplicationGroups app0) = Inr gs"
        "Begin c db = None"
      and guard: "\<not> (exist \<and> \<not> forceUpdate)"
      and val: "checkPipelines c proj ?app (Pipelines app0) ?s0 = (None, s1)"
  proof -
    note h = handler_prelude [OF pre, of forceUpdate al]
    have val': "checkPipelines c proj ?app (Pipelines ?app) ?s0 = (None, s1)"
      using val by simp
    have rej: "\<exists>e. globalError s1 = Some (SdkError e)
              \<and> importApplicationHandler c proj payload forceUpdate al db =
                  (WriteJSON (msgListString c al (sent s1 @ [zeroMessage])) (Status c e), Rollback s1)"
      if "globalError s1 \<noteq> None"
    proof -
      from checkPipelines_globalError [OF val'] that obtain e where e: "globalError s1 = Some (SdkError e)"
        by auto
      from body_rejects [OF guard val' e, of al] h e show ?thesis by simp
    qed
    have app: "(\<forall>e. globalError s2 = Some (SdkError e) \<longrightarrow>
             importApplicationHandler c proj payload forceUpdate al db =
               (WriteJSON (msgListString c al (sent s2 @ [zeroMessage])) (Status c e), Rollback s2))
          \<and> (globalError s2 = None
              \<and> UpdateLastModified c (txView s2) proj = (None, w)
              \<and> Commit c (pending s2 @ w) = None
              \<and> LoadAll c (rows s2 @ pending s2 @ w) (Project_Key proj) = None
              \<and> CheckApplication c (rows s2 @ pending s2 @ w) proj app2 = (None, w2) \<longrightarrow>
             importApplicationHandler c proj payload forceUpdate al db =
               (WriteJSON (msgListString c al (sent s2 @ [zeroMessage])) 200,
                Rollback (s2\<lparr>rows := rows s2 @ pending s2 @ w @ w2, pending := [],
                              txlog := txlog s2 @ [TxCommit]\<rparr>)))"
      if ap: "applyPhase c proj ?app exist s1 = ((None, s2), app2)"
    proof -
      have b: "body c proj ?app exist forceUpdate al ?s0 = finish c proj app2 al s2"
        using guard val' ap by (rule body_finishes)
      show ?thesis
        using h b by (auto simp: finish_rejects finish_succeeds)
    qed
    from rej app show ?thesis by blast
  qed
  from any rest show ?thesis by blast
qed

theorem response_carries_diagnostics_witness:
  "importApplicationHandler sampleCollab sampleProject (payloadOf brokenApp) False ''en'' sampleRows =
     (WriteJSON [''Pipeline ghost not found'', ''Application other not found'',
                 ''Environment staging not found'', ''Pipeline phantom not found''] 404,
      \<lparr>sent = [NewMessage MsgAppImportPipelineNotFound [''ghost''],
               NewMessage MsgAppImportAppNotFound [''other''],
               NewMessage MsgAppImportEnvNotFound [''staging''],
               NewMessage MsgAppImportPipelineNotFound [''phantom'']],
       globalError = Some (SdkError ErrPipelineNotFound),
       rows = sampleRows, pending = [], txlog = [TxBegin, TxRollback]\<rparr>)
   \<and> importApplicationHandler sampleCollab sampleProject (payloadOf hookedApp) False ''en'' sampleRows =
     (WriteJSON [''Application app created'', ''Hook created''] 200,
      \<lparr>sent = [NewMessage (MsgOther 0) [''app''], NewMessage MsgHookCreated [''org/app'', ''build'']],
       globalError = None,
       rows = sampleRows @ [HookRow ''app'' ''build'', ApplicationRow ''app'', ProjectModifiedRow ''PRJ''],
       pending = [], txlog = [TxBegin, TxCommit, TxRollback]\<rparr>)"
proof -
  let ?s0 = "\<lparr>sent = [], globalError = None, rows = sampleRows, pending = [], txlog = [TxBegin]\<rparr>"
  let ?r1 = "\<lparr>sent = [NewMessage MsgAppImportPipelineNotFound [''ghost''],
               NewMessage MsgAppImportAppNotFound [''other''],
               NewMessage MsgAppImportEnvNotFound [''staging''],
               NewMessage MsgAppImportPipelineNotFound [''phantom'']],
       globalError = Some (SdkError ErrPipelineNotFound),
       rows = sampleRows, pending = [], txlog = [TxBegin]\<rparr>"
  let ?s2 = "\<lparr>sent = [NewMessage (MsgOther 0) [''app''], NewMessage MsgHookCreated [''org/app'', ''build'']],
       globalError = None, rows = sampleRows @ [HookRow ''app'' ''build''],
       pending = [ApplicationRow ''app''], txlog = [TxBegin]\<rparr>"
  let ?app2 = "hookedApp\<lparr>App_ID := 7,
                 Pipelines := [\<lparr>Pipeline = \<lparr>Pipeline_ID = 3, Pipeline_Name = ''build''\<rparr>, Triggers = []\<rparr>]\<rparr>"
  let ?w = "[ProjectModifiedRow ''PRJ'']"
  note rj = response_carries_diagnostics
    [where c = sampleCollab and proj = sampleProject and payload = "payloadOf brokenApp" and forceUpdate = False
       and al = "''en''" and db = sampleRows and exist = False and ?app0.0 = brokenApp and gs = "[]"
       and ?s1.0 = ?r1]
  note ok = response_carries_diagnostics
    [where c = sampleCollab and proj = sampleProject and payload = "payloadOf hookedApp" and forceUpdate = False
       and al = "''en''" and db = sampleRows and exist = False and ?app0.0 = hookedApp and gs = "[]"
       and ?s1.0 = ?s0 and ?s2.0 = ?s2 and ?app2.0 = ?app2 and w = ?w and ?w2.0 = "[]"]
  have a1: "Exists sampleCollab sampleRows (Project_ID sampleProject) (Payload_Name (payloadOf brokenApp)) = Inr False"
    by code_simp
  have a2: "Payload_Application (payloadOf brokenApp) = Inr brokenApp"
    by (simp add: payloadOf_def)
  have a3: "loadGroups sampleCollab sampleRows (ApplicationGroups brokenApp) = Inr []"
    by code_simp
  have a4: "Begin sampleCollab sampleRows = None"
    by (simp add: sampleCollab_def)
  have a5: "\<not> (False \<and> \<not> False)" by simp
  have a6: "checkPipelines sampleCollab sampleProject (brokenApp\<lparr>ApplicationGroups := []\<rparr>) (Pipelines brokenApp) ?s0
              = (None, ?r1)"
    by code_simp
  have a7: "globalError ?r1 \<noteq> None" by simp
  from rj a1 a2 a3 a4 a5 a6 a7 obtain e where e: "globalError ?r1 = Some (SdkError e)"
    and r: "importApplicationHandler sampleCollab sampleProject (payloadOf brokenApp) False ''en'' sampleRows =
              (WriteJSON (msgListString sampleCollab ''en'' (sent ?r1 @ [zeroMessage])) (Status sampleCollab e),
               Rollback ?r1)"
    by blast
  from e have e': "e = ErrPipelineNotFound" by simp
  have "(WriteJSON (msgListString sampleCollab ''en'' (sent ?r1 @ [zeroMessage])) (Status sampleCollab ErrPipelineNotFound),
               Rollback ?r1)
        = (WriteJSON [''Pipeline ghost not found'', ''Application other not found'',
                 ''Environment staging not found'', ''Pipeline phantom not found''] 404,
      \<lparr>sent = [NewMessage MsgAppImportPipelineNotFound [''ghost''],
               NewMessage MsgAppImportAppNotFound [''other''],
               NewMessage MsgAppImportEnvNotFound [''staging''],
               NewMessage MsgAppImportPipelineNotFound [''phantom'']],
       globalError = Some (SdkError ErrPipelineNotFound),
       rows = sampleRows, pending = [], txlog = [TxBegin, TxRollback]\<rparr>)"
    by code_simp
  with r e' have 1: "importApplicationHandler sampleCollab sampleProject (payloadOf brokenApp) False ''en'' sampleRows =
     (WriteJSON [''Pipeline ghost not found'', ''Application other not found'',
                 ''Environment staging not found'', ''Pipeline phantom not found''] 404,
      \<lparr>sent = [NewMessage MsgAppImportPipelineNotFound [''ghost''],
               NewMessage MsgAppImportAppNotFound [''other''],
               NewMessage MsgAppImportEnvNotFound [''staging''],
               NewMessage MsgAppImportPipelineNotFound [''phantom'']],
       globalError = Some (SdkError ErrPipelineNotFound),
       rows = sampleRows, pending = [], txlog = [TxBegin, TxRollback]\<rparr>)"
    by simp
  have b1: "Exists sampleCollab sampleRows (Project_ID sampleProject) (Payload_Name (payloadOf hookedApp)) = Inr False"
    by code_simp
  have b2: "Payload_Application (payloadOf hookedApp) = Inr hookedApp"
    by (simp add: payloadOf_def)
  have b3: "loadGroups sampleCollab sampleRows (ApplicationGroups hookedApp) = Inr []"
    by code_simp
  have b6: "checkPipelines sampleCollab sampleProject (hookedApp\<lparr>ApplicationGroups := []\<rparr>) (Pipelines hookedApp) ?s0
              = (None, ?s0)"
    by code_simp
  have b7: "globalError ?s0 = None" by simp
  have b8: "applyPhase sampleCollab sampleProject (hookedApp\<lparr>ApplicationGroups := []\<rparr>) False ?s0 = ((None, ?s2), ?app2)"
    by code_simp
  have b9: "globalError ?s2 = None" by simp
  have b10: "UpdateLastModified sampleCollab (txView ?s2) sampleProject = (None, ?w)"
    by code_simp
  have b11: "Commit sampleCollab (pending ?s2 @ ?w) = None"
    by (simp add: sampleCollab_def)
  have b12: "LoadAll sampleCollab (rows ?s2 @ pending ?s2 @ ?w) (Project_Key sampleProject) = None"
    by (simp add: sampleCollab_def)
  have b13: "CheckApplication sampleCollab (rows ?s2 @ pending ?s2 @ ?w) sampleProject ?app2 = (None, [])"
    by (simp add: sampleCollab_def)
  from ok b1 b2 b3 a4 a5 b6 b7 b8 b9 b10 b11 b12 b13
  have "importApplicationHandler sampleCollab sampleProject (payloadOf hookedApp) False ''en'' sampleRows =
               (WriteJSON (msgListString sampleCollab ''en'' (sent ?s2 @ [zeroMessage])) 200,
                Rollback (?s2\<lparr>rows := rows ?s2 @ pending ?s2 @ ?w @ [], pending := [],
                              txlog := txlog ?s2 @ [TxCommit]\<rparr>))"
    by blast
  also have "\<dots> = (WriteJSON [''Application app created'', ''Hook created''] 200,
      \<lparr>sent = [NewMessage (MsgOther 0) [''app''], NewMessage MsgHookCreated [''org/app'', ''build'']],
       globalError = None,
       rows = sampleRows @ [HookRow ''app'' ''build'', ApplicationRow ''app'', ProjectModifiedRow ''PRJ''],
       pending = [], txlog = [TxBegin, TxCommit, TxRollback]\<rparr>)"
    by code_simp
  finally have 2: "importApplicationHandler sampleCollab sampleProject (payloadOf hookedApp) False ''en'' sampleRows =
     (WriteJSON [''Application app created'', ''Hook created''] 200,
      \<lparr>sent = [NewMessage (MsgOther 0) [''app''], NewMessage MsgHookCreated [''org/app'', ''build'']],
       globalError = None,
       rows = sampleRows @ [HookRow ''app'' ''build'', ApplicationRow ''app'', ProjectModifiedRow ''PRJ''],
       pending = [], txlog = [TxBegin, TxCommit, TxRollback]\<rparr>)" .
  from 1 2 show ?thesis by blast
qed

section \<open>forceUpdate on an application that exists\<close>

lemma loadGroups_Import: "loadGroups (c\<lparr>Import := imp\<rparr>) v gs = loadGroups c v gs"
  by (induction gs) (auto split: sum.splits)

lemma checkDestApplication_Import:
  "checkDestApplication (c\<lparr>Import := imp\<rparr>) proj app t s = checkDestApplication c proj app t s"
  by (simp add: checkDestApplication_def)

lemma checkEnvironment_Import:
  "checkEnvironment (c\<lparr>Import := imp\<rparr>) proj e s = checkEnvironment c proj e s"
  by (simp add: checkEnvironment_def)

lemma checkTriggers_Import:
  "checkTriggers (c\<lparr>Import := imp\<rparr>) proj app ts s = checkTriggers c proj app ts s"
  by (induction ts arbitrary: s) (auto simp: checkDestApplication_Import checkEnvironment_Import split: prod.splits option.splits)

lemma checkPipelines_Import:
  "checkPipelines (c\<lparr>Import := imp\<rparr>) proj app ps s = checkPipelines c proj app ps s"
  by (induction ps arbitrary: s) (auto simp: Let_def checkTriggers_Import split: prod.splits option.splits sum.splits)

lemma manageHooks_Import:
  "manageHooks (c\<lparr>Import := imp\<rparr>) proj app hs s = manageHooks c proj app hs s"
  by (induction hs arbitrary: s) (auto simp: Let_def split: prod.splits option.splits)

lemma managePollers_Import:
  "managePollers (c\<lparr>Import := imp\<rparr>) proj app hs s = managePollers c proj app hs s"
  by (induction hs arbitrary: s) (auto simp: Let_def split: prod.splits option.splits)

lemma manageNotifications_Import:
  "manageNotifications (c\<lparr>Import := imp\<rparr>) proj app ns s = manageNotifications c proj app ns s"
  by (induction ns arbitrary: s) (auto simp: Let_def split: prod.splits option.splits)

lemma manageRepository_Import:
  "manageRepository (c\<lparr>Import := imp\<rparr>) proj app s = manageRepository c proj app s"
  by (simp add: manageRepository_def manageHooks_Import managePollers_Import split: prod.splits option.splits)

lemma finish_Import:
  "finish (c\<lparr>Import := imp\<rparr>) proj app al s = finish c proj app al s"
  by (simp add: finish_def msgListString_def Let_def split: option.splits prod.splits error.splits)

lemma importCore_exists: "importCore c proj app True s = (s, app)"
  by (simp add: importCore_def)

lemma applyPhase_exists_Import:
  "applyPhase (c\<lparr>Import := imp\<rparr>) proj app True s = applyPhase c proj app True s"
  by (auto simp: applyPhase_def importCore_exists manageRepository_Import manageNotifications_Import split: prod.splits option.splits)

lemma body_exists_Import:
  "body (c\<lparr>Import := imp\<rparr>) proj app True forceUpdate al s = body c proj app True forceUpdate al s"
  by (auto simp: body_def applyPhase_exists_Import checkPipelines_Import finish_Import split: prod.splits option.splits)

lemma body_forceUpdate:
  "body c proj app False forceUpdate al s = body c proj app False False al s"
  by (simp add: body_def)

text \<open>
  C9. For an application that exists, the handler never calls \<open>application.Import\<close>
  (whatever \<open>Import\<close> would do, the run is the same) and the core apply step leaves the state
  and the application as they are; for an application that does not exist, \<open>forceUpdate\<close>
  changes nothing. So \<open>forceUpdate\<close> only bypasses the "already exists" answer.
\<close>

theorem forceUpdate_only_bypasses_guard:
  "(Exists c db (Project_ID proj) (Payload_Name payload) = Inr True \<longrightarrow>
      importApplicationHandler (c\<lparr>Import := imp\<rparr>) proj payload forceUpdate al db =
        importApplicationHandler c proj payload forceUpdate al db)
   \<and> (Exists c db (Project_ID proj) (Payload_Name payload) = Inr False \<longrightarrow>
      importApplicationHandler c proj payload True al db =
        importApplicationHandler c proj payload False al db)
   \<and> importCore c proj app True s = (s, app)"
proof -
  have 1: "importApplicationHandler (c\<lparr>Import := imp\<rparr>) proj payload forceUpdate al db =
        importApplicationHandler c proj payload forceUpdate al db"
    if "Exists c db (Project_ID proj) (Payload_Name payload) = Inr True"
    using that
    by (simp add: importApplicationHandler_def body_exists_Import loadGroups_Import Let_def split: sum.splits option.splits prod.splits)
  have 2: "importApplicationHandler c proj payload True al db =
        importApplicationHandler c proj payload False al db"
    if "Exists c db (Project_ID proj) (Payload_Name payload) = Inr False"
    using that body_forceUpdate [of c proj _ True al]
    by (simp add: importApplicationHandler_def Let_def split: sum.splits option.splits prod.splits)
  from 1 2 importCore_exists show ?thesis by blast
qed

theorem forceUpdate_only_bypasses_guard_witness:
  "importApplicationHandler (sampleCollab\<lparr>Import := failingImport\<rparr>) sampleProject (payloadOf sampleApp) True ''en'' existingRows =
     (WriteJSON [] 200,
      \<lparr>sent = [], globalError = None, rows = existingRows @ [ProjectModifiedRow ''PRJ''],
       pending = [], txlog = [TxBegin, TxCommit, TxRollback]\<rparr>)
   \<and> importApplicationHandler sampleCollab sampleProject (payloadOf sampleApp) True ''en'' sampleRows =
     (WriteJSON [''Application app created''] 200,
      \<lparr>sent = [NewMessage (MsgOther 0) [''app'']], globalError = None,
       rows = sampleRows @ [ApplicationRow ''app'', ProjectModifiedRow ''PRJ''],
       pending = [], txlog = [TxBegin, TxCommit, TxRollback]\<rparr>)
   \<and> importCore sampleCollab sampleProject sampleApp True openState = (openState, sampleApp)"
proof -
  note ex = forceUpdate_only_bypasses_guard
    [where c = sampleCollab and db = existingRows and proj = sampleProject and payload = "payloadOf sampleApp"
       and imp = failingImport and forceUpdate = True and al = "''en''" and app = sampleApp and s = openState]
  note nx = forceUpdate_only_bypasses_guard
    [where c = sampleCollab and db = sampleRows and proj = sampleProject and payload = "payloadOf sampleApp"
       and imp = failingImport and forceUpdate = True and al = "''en''" and app = sampleApp and s = openState]
  have e: "Exists sampleCollab existingRows (Project_ID sampleProject) (Payload_Name (payloadOf sampleApp)) = Inr True"
    by code_simp
  have n: "Exists sampleCollab sampleRows (Project_ID sampleProject) (Payload_Name (payloadOf sampleApp)) = Inr False"
    by code_simp
  from ex e have "importApplicationHandler (sampleCollab\<lparr>Import := failingImport\<rparr>) sampleProject (payloadOf sampleApp) True ''en'' existingRows =
        importApplicationHandler sampleCollab sampleProject (payloadOf sampleApp) True ''en'' existingRows"
    by blast
  also have "\<dots> = (WriteJSON [] 200,
      \<lparr>sent = [], globalError = None, rows = existingRows @ [ProjectModifiedRow ''PRJ''],
       pending = [], txlog = [TxBegin, TxCommit, TxRollback]\<rparr>)"
    by code_simp
  finally have 1: "importApplicationHandler (sampleCollab\<lparr>Import := failingImport\<rparr>) sampleProject (payloadOf sampleApp) True ''en'' existingRows =
     (WriteJSON [] 200,
      \<lparr>sent = [], globalError = None, rows = existingRows @ [ProjectModifiedRow ''PRJ''],
       pending = [], txlog = [TxBegin, TxCommit, TxRollback]\<rparr>)" .
  from nx n have "importApplicationHandler sampleCollab sampleProject (payloadOf sampleApp) True ''en'' sampleRows =
        importApplicationHandler sampleCollab sampleProject (payloadOf sampleApp) False ''en'' sampleRows"
    by blast
  also have "\<dots> = (WriteJSON [''Application app created''] 200,
      \<lparr>sent = [NewMessage (MsgOther 0) [''app'']], globalError = None,
       rows = sampleRows @ [ApplicationRow ''app'', ProjectModifiedRow ''PRJ''],
       pending = [], txlog = [TxBegin, TxCommit, TxRollback]\<rparr>)"
    by code_simp
  finally have 2: "importApplicationHandler sampleCollab sampleProject (payloadOf sampleApp) True ''en'' sampleRows =
     (WriteJSON [''Application app created''] 200,
      \<lparr>sent = [NewMessage (MsgOther 0) [''app'']], globalError = None,
       rows = sampleRows @ [ApplicationRow ''app'', ProjectModifiedRow ''PRJ''],
       pending = [], txlog = [TxBegin, TxCommit, TxRollback]\<rparr>)" .
  from ex have 3: "importCore sampleCollab sampleProject sampleApp True openState = (openState, sampleApp)"
    by blast
  from 1 2 3 show ?thesis by blast
qed

end
